theory Spec2Isabelle
  imports Complex_Main "HOL-Library.AList"
begin

section \<open>Python numbers\<close>

text \<open>
  A Python \<^verbatim>\<open>float\<close> is an IEEE 754 binary64 value.  A finite one is
  kept as the rational it denotes; the sign of zero is not kept.  Arithmetic on floats
  rounds the exact result to the nearest binary64 value, ties to the even significand.
\<close>

datatype pyfloat = Finite rat | PosInf | NegInf | NaN

definition pow2 :: "int \<Rightarrow> rat" where
  "pow2 k = (if 0 \<le> k then 2 ^ nat k else 1 / 2 ^ nat (- k))"

text \<open>The number of binary digits of a positive integer.\<close>

function bitlen :: "int \<Rightarrow> nat" where
  "bitlen n = (if n \<le> 0 then 0 else Suc (bitlen (n div 2)))"
  by pat_completeness auto
termination
  by (relation "measure nat") auto

declare bitlen.simps [simp del]

text \<open>For \<open>0 < x\<close>, \<open>ilog2 x\<close> is the exponent \<open>e\<close> with \<open>2^e \<le> x < 2^(e+1)\<close>.\<close>

definition ilog2 :: "rat \<Rightarrow> int" where
  "ilog2 x =
     (let e0 = int (bitlen (fst (quotient_of x))) - int (bitlen (snd (quotient_of x)))
      in if pow2 e0 \<le> x then e0 else e0 - 1)"

definition round_half_even :: "rat \<Rightarrow> int" where
  "round_half_even y =
     (let f = \<lfloor>y\<rfloor>; r = y - of_int f
      in if r < 1 / 2 then f else if 1 / 2 < r then f + 1 else if even f then f else f + 1)"

text \<open>
  Rounding of an exact value to binary64: 53 significant bits, least exponent -1022
  (below it the spacing stays \<open>2^-1074\<close>); a rounded magnitude of \<open>2^1024\<close> or
  more overflows to an infinity.
\<close>

definition fl :: "rat \<Rightarrow> pyfloat" where
  "fl x =
     (if x = 0 then Finite 0
      else
        let e = max (ilog2 \<bar>x\<bar>) (- 1022);
            q = pow2 (e - 52);
            y = of_int (round_half_even (\<bar>x\<bar> / q)) * q
        in if 0 < y \<and> 1024 \<le> ilog2 y then (if 0 < x then PosInf else NegInf)
           else Finite (sgn x * y))"

text \<open>\<^verbatim>\<open>a * b\<close> on two floats.\<close>

fun fmul :: "pyfloat \<Rightarrow> pyfloat \<Rightarrow> pyfloat" where
  "fmul (Finite a) (Finite b) = fl (a * b)"
| "fmul NaN _ = NaN"
| "fmul _ NaN = NaN"
| "fmul (Finite a) PosInf = (if a = 0 then NaN else if 0 < a then PosInf else NegInf)"
| "fmul (Finite a) NegInf = (if a = 0 then NaN else if 0 < a then NegInf else PosInf)"
| "fmul PosInf (Finite b) = (if b = 0 then NaN else if 0 < b then PosInf else NegInf)"
| "fmul NegInf (Finite b) = (if b = 0 then NaN else if 0 < b then NegInf else PosInf)"
| "fmul PosInf PosInf = PosInf"
| "fmul PosInf NegInf = NegInf"
| "fmul NegInf PosInf = NegInf"
| "fmul NegInf NegInf = PosInf"

text \<open>
  \<^verbatim>\<open>round(x, 2)\<close> on a float: the exact value of \<open>x\<close> is rounded to two
  decimal places, ties to even, and the decimal obtained is read back as a float.
  Infinities and NaN round to themselves.
\<close>

fun py_round2 :: "pyfloat \<Rightarrow> pyfloat" where
  "py_round2 (Finite x) = fl (of_int (round_half_even (x * 100)) / 100)"
| "py_round2 f = f"


section \<open>Python values and exceptions\<close>

text \<open>
  The values \<^verbatim>\<open>json.loads\<close> can return.  A dictionary is an association list read
  with \<^const>\<open>map_of\<close> and written with \<^const>\<open>AList.update\<close>.
\<close>

datatype pyval =
    PNone
  | PBool bool
  | PInt int
  | PFloat pyfloat
  | PStr string
  | PList "pyval list"
  | PDict "(string \<times> pyval) list"

datatype py_error =
    TypeError
  | AttributeError
  | ValueError
  | KeyError
  | InvalidOperation
  | ProgrammingError
  | DataError
  | IntegrityError
  | DatabaseError

text \<open>\<^verbatim>\<open>needle in s\<close> on two strings: \<open>needle\<close> occurs in \<open>s\<close> as a contiguous run.\<close>

fun is_substring :: "string \<Rightarrow> string \<Rightarrow> bool" where
  "is_substring needle [] = (needle = [])"
| "is_substring needle (c # cs) =
     (take (length needle) (c # cs) = needle \<or> is_substring needle cs)"

text \<open>
  \<^verbatim>\<open>needle in v\<close> for a string \<open>needle\<close>: substring test on a string, membership
  in a list, key membership in a dictionary, and \<^verbatim>\<open>TypeError\<close> on \<^verbatim>\<open>None\<close>,
  booleans and numbers, which are not iterable.
\<close>

fun py_in :: "string \<Rightarrow> pyval \<Rightarrow> py_error + bool" where
  "py_in needle (PStr s) = Inr (is_substring needle s)"
| "py_in needle (PList vs) = Inr (List.member vs (PStr needle))"
| "py_in needle (PDict kvs) = Inr (List.member (map fst kvs) needle)"
| "py_in needle v = Inl TypeError"

section \<open>openai\_service.py\<close>

text \<open>
  \<^verbatim>\<open>project_data\<close> as \<^verbatim>\<open>analyze_project\<close> receives it.  Its \<^verbatim>\<open>satellite_data\<close>
  entry only feeds the prompt text and is left out.
\<close>

record project_data =
  project_type :: string
  area_size :: pyfloat
  area_unit :: string

text \<open>The table \<^verbatim>\<open>rates\<close>; a literal such as \<^verbatim>\<open>1.2\<close> is the float nearest to it.\<close>

definition rates :: "(string \<times> pyfloat) list" where
  "rates =
     [(''forestry'', fl (35 / 10)),
      (''agriculture'', fl (12 / 10)),
      (''agroforestry'', fl (28 / 10)),
      (''wetland'', fl (48 / 10)),
      (''other'', fl 1)]"

definition annual_rate :: "string \<Rightarrow> pyfloat" where
  "annual_rate t = (case map_of rates t of Some r \<Rightarrow> r | None \<Rightarrow> fl 1)"

definition unit_multiplier :: "string \<Rightarrow> pyfloat" where
  "unit_multiplier u = (if u = ''hectares'' then fl (247 / 100) else Finite 1)"

definition estimate_fallback :: "project_data \<Rightarrow> pyfloat" where
  "estimate_fallback pd =
     (let area = area_size pd;
          area_in_acres = fmul area (unit_multiplier (area_unit pd))
      in py_round2 (fmul area_in_acres (annual_rate (project_type pd))))"

text \<open>
  What the call to the hosted model gives: it raised (the request failed, or the
  content was not JSON), or \<^verbatim>\<open>json.loads\<close> returned a value.
\<close>

datatype ai_outcome = AIRaised | AIReply pyval

definition fallback_result :: "project_data \<Rightarrow> (string \<times> pyval) list" where
  "fallback_result pd =
     [(''carbon_estimate'', PFloat (estimate_fallback pd)),
      (''confidence_score'', PInt 70),
      (''methodology'', PStr ''AI-assisted estimation with standard factors''),
      (''data_sources'',
         PDict [(''satellite'', PStr ''Basic NDVI analysis''),
                (''standards'', PStr ''IPCC guidelines''),
                (''factors'', PStr ''Conservative estimation factors'')]),
      (''risks'', PList [PStr ''Limited data points'', PStr ''Conservative estimate'']),
      (''recommendations'',
         PList [PStr ''Collect field measurements'', PStr ''Regular monitoring'']),
      (''model_version'', PStr ''fallback'')]"

text \<open>
  The body of the \<^verbatim>\<open>try\<close> block after the reply is parsed.  \<open>py_float\<close> is Python's
  \<^verbatim>\<open>float\<close> on a string (\<open>None\<close> where it raises \<^verbatim>\<open>ValueError\<close>).
  \<^verbatim>\<open>result.get\<close> exists on a dictionary only; \<^verbatim>\<open>.split\<close> exists on a string only.
\<close>

definition parse_reply ::
  "(string \<Rightarrow> pyfloat option) \<Rightarrow> pyval \<Rightarrow> py_error + (string \<times> pyval) list" where
  "parse_reply py_float reply =
     (case reply of
        PDict result \<Rightarrow>
          (let carbon_estimate_str =
                 (case map_of result ''carbon_estimate'' of Some v \<Rightarrow> v | None \<Rightarrow> PStr [])
           in case py_in ''tons CO2e/year'' carbon_estimate_str of
                Inl e \<Rightarrow> Inl e
              | Inr False \<Rightarrow>
                  Inr (AList.update ''carbon_estimate'' (PFloat (Finite 0))
                         (AList.update ''model_version'' (PStr ''gpt-4'') result))
              | Inr True \<Rightarrow>
                  (case carbon_estimate_str of
                     PStr s \<Rightarrow>
                       (case py_float (takeWhile (\<lambda>c. c \<noteq> CHR '' '') s) of
                          None \<Rightarrow> Inl ValueError
                        | Some carbon_estimate \<Rightarrow>
                            Inr (AList.update ''carbon_estimate'' (PFloat carbon_estimate)
                                   (AList.update ''model_version'' (PStr ''gpt-4'') result)))
                   | _ \<Rightarrow> Inl AttributeError))
      | _ \<Rightarrow> Inl AttributeError)"

definition analyze_project ::
  "(string \<Rightarrow> pyfloat option) \<Rightarrow> ai_outcome \<Rightarrow> project_data \<Rightarrow> (string \<times> pyval) list" where
  "analyze_project py_float ai pd =
     (case ai of
        AIRaised \<Rightarrow> fallback_result pd
      | AIReply reply \<Rightarrow>
          (case parse_reply py_float reply of
             Inl e \<Rightarrow> fallback_result pd
           | Inr result \<Rightarrow> result))"

section \<open>The ledger: tables of db\_setup.py\<close>

text \<open>
  The tables as \<^verbatim>\<open>db_setup.py\<close> creates them, each a list of rows in insertion
  order.  Columns that no handler below reads or computes with (names, coordinates,
  descriptions, JSON documents, image URLs) are left out.  A \<^verbatim>\<open>DECIMAL\<close> column holds
  a rational; the driver hands it to Python as a \<^verbatim>\<open>decimal.Decimal\<close>.  A
  \<^verbatim>\<open>TIMESTAMP\<close> is a number of seconds and a \<^verbatim>\<open>DATE\<close> a number of days since
  1970-01-01.
\<close>

datatype project_status = Registered | Assessing | Verified | Active | Completed

datatype verification_status = Pending | Approved | Rejected

datatype credit_status = Available | Reserved | Sold | Expired

datatype transaction_status = TxPending | TxCompleted | TxCancelled

record project =
  p_id :: nat
  p_user_id :: nat
  p_project_type :: string
  p_area_size :: rat
  p_area_unit :: string
  p_status :: project_status

record assessment =
  a_id :: nat
  a_project_id :: nat
  assessment_date :: int
  carbon_estimate :: rat
  ai_model_version :: string
  a_verification_status :: verification_status
  report_url :: "string option"

record credit =
  c_id :: nat
  c_project_id :: nat
  c_assessment_id :: nat
  credit_amount :: rat
  issuance_date :: int
  expiry_date :: "int option"
  certificate_id :: string
  c_status :: credit_status
  price_per_credit :: "rat option"
  verification_document_url :: "string option"

record transaction_row =
  t_id :: nat
  t_credit_id :: nat
  buyer_id :: nat
  seller_id :: nat
  amount :: rat
  price_per_unit :: rat
  total_price :: rat
  transaction_date :: int
  t_status :: transaction_status

record satellite_row =
  s_id :: nat
  s_project_id :: nat
  capture_date :: int

record verification_log =
  l_id :: nat
  l_project_id :: nat
  l_assessment_id :: "nat option"
  model_used :: string

record ledger =
  projects :: "project list"
  carbon_assessments :: "assessment list"
  carbon_credits :: "credit list"
  transactions :: "transaction_row list"
  satellite_data :: "satellite_row list"
  ai_verification_logs :: "verification_log list"

text \<open>\<^verbatim>\<open>AUTO_INCREMENT\<close>: the next id is above every id of the table.\<close>

definition next_id :: "nat list \<Rightarrow> nat" where
  "next_id ids = Suc (fold max ids 0)"

section \<open>What a request brings with it\<close>

text \<open>
  Everything a handler takes from outside the ledger: the session, the clock, the
  random token of \<^verbatim>\<open>secrets.token_hex(4)\<close>, the outcome of the call to the hosted
  model, Python's \<^verbatim>\<open>float\<close> on strings, and the database server, which may reject
  a statement for a reason the columns kept here do not show (a value too long for
  its column, a lost connection): \<open>fails_at = Some n\<close> says that the \<open>n\<close>-th
  \<^verbatim>\<open>cursor.execute\<close> of the handler raises.
\<close>

record env =
  session_user :: "nat option"
  now :: int
  token_hex :: string
  ai_call :: ai_outcome
  float_of_str :: "string \<Rightarrow> pyfloat option"
  fails_at :: "nat option"

definition rejected :: "env \<Rightarrow> nat \<Rightarrow> bool" where
  "rejected e n = (fails_at e = Some n)"

text \<open>
  What a handler returns besides the ledger: the last message it flashed (the text, or
  the exception of an \<^verbatim>\<open>Error:\<close> message) and its response (the endpoint of a
  redirect or the template rendered).
\<close>

datatype flash = NoFlash | Flash string | FlashError py_error

datatype response = Redirect string | Render string

section \<open>Values on their way into and out of the database\<close>

text \<open>
  The driver refuses an infinity or a NaN as a parameter.  The server, in its default
  strict mode, rounds a number to the scale of a \<^verbatim>\<open>DECIMAL(p, s)\<close> column, half
  away from zero, and rejects a value that then needs more than \<open>p\<close> digits.
\<close>

definition round_half_away :: "rat \<Rightarrow> int" where
  "round_half_away y = (if 0 \<le> y then \<lfloor>y + 1 / 2\<rfloor> else - \<lfloor>- y + 1 / 2\<rfloor>)"

definition decimal_column :: "nat \<Rightarrow> nat \<Rightarrow> rat \<Rightarrow> py_error + rat" where
  "decimal_column p s x =
     (let n = round_half_away (x * 10 ^ s)
      in if \<bar>n\<bar> < 10 ^ p then Inr (of_int n / 10 ^ s) else Inl DataError)"

fun float_param :: "nat \<Rightarrow> nat \<Rightarrow> pyfloat \<Rightarrow> py_error + rat" where
  "float_param p s (Finite x) = decimal_column p s x"
| "float_param p s f = Inl ProgrammingError"

text \<open>\<^verbatim>\<open>float(d)\<close> on a \<^verbatim>\<open>Decimal\<close>, and on \<^verbatim>\<open>None\<close> (a \<^verbatim>\<open>NULL\<close> column).\<close>

definition float_of_decimal :: "rat \<Rightarrow> pyfloat" where
  "float_of_decimal d = fl d"

fun float_of_nullable :: "rat option \<Rightarrow> py_error + pyfloat" where
  "float_of_nullable None = Inl TypeError"
| "float_of_nullable (Some d) = Inr (float_of_decimal d)"

text \<open>
  \<^verbatim>\<open>f >= d\<close> for a float and a \<^verbatim>\<open>Decimal\<close> compares the exact values; a NaN
  operand raises \<^verbatim>\<open>decimal.InvalidOperation\<close>.
\<close>

fun float_ge_decimal :: "pyfloat \<Rightarrow> rat \<Rightarrow> py_error + bool" where
  "float_ge_decimal (Finite a) d = Inr (d \<le> a)"
| "float_ge_decimal PosInf d = Inr True"
| "float_ge_decimal NegInf d = Inr False"
| "float_ge_decimal NaN d = Inl InvalidOperation"

text \<open>
  \<^verbatim>\<open>d - f\<close> for a \<^verbatim>\<open>Decimal\<close> \<open>d\<close> and a float \<open>f\<close>: \<^verbatim>\<open>Decimal\<close> subtracts
  only a \<^verbatim>\<open>Decimal\<close> or an \<^verbatim>\<open>int\<close>, and a float does not subtract from a
  \<^verbatim>\<open>Decimal\<close>, so Python raises \<^verbatim>\<open>TypeError\<close> whatever the two values are.
\<close>

definition decimal_minus_float :: "rat \<Rightarrow> pyfloat \<Rightarrow> py_error + rat" where
  "decimal_minus_float d f = Inl TypeError"

section \<open>Strings and dates\<close>

function show_nat :: "nat \<Rightarrow> string" where
  "show_nat n =
     (if n < 10 then [''0123456789'' ! n]
      else show_nat (n div 10) @ [''0123456789'' ! (n mod 10)])"
  by pat_completeness auto
termination
  by (relation "measure id") auto

declare show_nat.simps [simp del]

definition pad2 :: "nat \<Rightarrow> string" where
  "pad2 n = (if n < 10 then CHR ''0'' # show_nat n else show_nat n)"

text \<open>The proleptic Gregorian calendar: a day number from a date and back.\<close>

definition days_from_civil :: "int \<Rightarrow> int \<Rightarrow> int \<Rightarrow> int" where
  "days_from_civil y m d =
     (let y' = (if m \<le> 2 then y - 1 else y);
          era = y' div 400;
          yoe = y' - era * 400;
          doy = (153 * (if 2 < m then m - 3 else m + 9) + 2) div 5 + d - 1;
          doe = yoe * 365 + yoe div 4 - yoe div 100 + doy
      in era * 146097 + doe - 719468)"

definition civil_from_days :: "int \<Rightarrow> int \<times> int \<times> int" where
  "civil_from_days z =
     (let z' = z + 719468;
          era = z' div 146097;
          doe = z' - era * 146097;
          yoe = (doe - doe div 1460 + doe div 36524 - doe div 146096) div 365;
          doy = doe - (365 * yoe + yoe div 4 - yoe div 100);
          mp = (5 * doy + 2) div 153;
          d = doy - (153 * mp + 2) div 5 + 1;
          m = (if mp < 10 then mp + 3 else mp - 9);
          y = yoe + era * 400
      in (if m \<le> 2 then y + 1 else y, m, d))"

definition today :: "env \<Rightarrow> int" where
  "today e = now e div 86400"

text \<open>\<^verbatim>\<open>strftime('%Y%m%d')\<close>, for years of four digits.\<close>

definition strftime_Ymd :: "int \<Rightarrow> string" where
  "strftime_Ymd z =
     (case civil_from_days z of
        (y, m, d) \<Rightarrow> show_nat (nat y) @ pad2 (nat m) @ pad2 (nat d))"

definition new_certificate_id :: "env \<Rightarrow> nat \<Rightarrow> string" where
  "new_certificate_id e project_id = ''CC-'' @ show_nat project_id @ ''-'' @ token_hex e"

section \<open>Statements on carbon\_credits and transactions\<close>

text \<open>
  \<^verbatim>\<open>certificate_id\<close> is \<^verbatim>\<open>UNIQUE\<close>, and \<^verbatim>\<open>assessment_id\<close> refers to a row of
  \<^verbatim>\<open>carbon_assessments\<close>.
\<close>

definition insert_credit :: "env \<Rightarrow> nat \<Rightarrow> ledger \<Rightarrow> credit \<Rightarrow> py_error + ledger" where
  "insert_credit e n db row =
     (if rejected e n then Inl DatabaseError
      else if certificate_id row \<in> set (map certificate_id (carbon_credits db))
        then Inl IntegrityError
      else if c_assessment_id row \<notin> set (map a_id (carbon_assessments db))
        then Inl IntegrityError
      else Inr (db\<lparr>carbon_credits :=
                    carbon_credits db @ [row\<lparr>c_id := next_id (map c_id (carbon_credits db))\<rparr>]\<rparr>))"

definition update_credit_status ::
  "env \<Rightarrow> nat \<Rightarrow> ledger \<Rightarrow> nat \<Rightarrow> credit_status \<Rightarrow> py_error + ledger" where
  "update_credit_status e n db credit_id st =
     (if rejected e n then Inl DatabaseError
      else Inr (db\<lparr>carbon_credits :=
                    map (\<lambda>c. if c_id c = credit_id then c\<lparr>c_status := st\<rparr> else c)
                      (carbon_credits db)\<rparr>))"

definition update_credit_amount ::
  "env \<Rightarrow> nat \<Rightarrow> ledger \<Rightarrow> nat \<Rightarrow> pyfloat \<Rightarrow> py_error + ledger" where
  "update_credit_amount e n db credit_id v =
     (if rejected e n then Inl DatabaseError
      else case float_param 12 2 v of
             Inl err \<Rightarrow> Inl err
           | Inr q \<Rightarrow>
               Inr (db\<lparr>carbon_credits :=
                      map (\<lambda>c. if c_id c = credit_id then c\<lparr>credit_amount := q\<rparr> else c)
                        (carbon_credits db)\<rparr>))"

definition insert_transaction ::
  "env \<Rightarrow> nat \<Rightarrow> ledger \<Rightarrow> nat \<Rightarrow> nat \<Rightarrow> nat \<Rightarrow> pyfloat \<Rightarrow> pyfloat \<Rightarrow> pyfloat
     \<Rightarrow> transaction_status \<Rightarrow> py_error + ledger" where
  "insert_transaction e n db credit_id buyer seller amt price tot st =
     (if rejected e n then Inl DatabaseError
      else case float_param 12 2 amt of
             Inl err \<Rightarrow> Inl err
           | Inr a \<Rightarrow>
          (case float_param 10 2 price of
             Inl err \<Rightarrow> Inl err
           | Inr p \<Rightarrow>
          (case float_param 12 2 tot of
             Inl err \<Rightarrow> Inl err
           | Inr t \<Rightarrow>
               Inr (db\<lparr>transactions := transactions db @
                      [\<lparr>t_id = next_id (map t_id (transactions db)), t_credit_id = credit_id,
                        buyer_id = buyer, seller_id = seller, amount = a, price_per_unit = p,
                        total_price = t, transaction_date = now e, t_status = st\<rparr>]\<rparr>))))"

section \<open>index.py: buy\_credit\<close>

datatype 'a http_request = GET | POST 'a

text \<open>
  The \<^verbatim>\<open>SELECT\<close> of \<^verbatim>\<open>buy_credit\<close>: the lot with this id if its status is
  \<^verbatim>\<open>available\<close>, joined with its project for the owner, \<^verbatim>\<open>seller_id\<close>.
\<close>

definition select_available_credit :: "ledger \<Rightarrow> nat \<Rightarrow> (credit \<times> nat) option" where
  "select_available_credit db credit_id =
     (case find (\<lambda>c. c_id c = credit_id \<and> c_status c = Available) (carbon_credits db) of
        None \<Rightarrow> None
      | Some c \<Rightarrow>
          (case find (\<lambda>p. p_id p = c_project_id c) (projects db) of
             None \<Rightarrow> None
           | Some p \<Rightarrow> Some (c, p_user_id p)))"

text \<open>
  The \<^verbatim>\<open>POST\<close> branch up to, and without, \<^verbatim>\<open>conn.commit()\<close>.  \<open>form_amount\<close> is
  \<^verbatim>\<open>float(request.form['amount'])\<close>, \<open>None\<close> when that raises.  \<open>Inl\<close> is an
  exception: the handler then closes the connection without a commit, and the server
  rolls the statements back.
\<close>

definition buy_credit_post ::
  "env \<Rightarrow> ledger \<Rightarrow> nat \<Rightarrow> credit \<Rightarrow> nat \<Rightarrow> nat \<Rightarrow> pyfloat option \<Rightarrow> py_error + ledger" where
  "buy_credit_post e db credit_id credit buyer seller form_amount =
     (case form_amount of
        None \<Rightarrow> Inl ValueError
      | Some amt \<Rightarrow>
     (case float_of_nullable (price_per_credit credit) of
        Inl err \<Rightarrow> Inl err
      | Inr price \<Rightarrow>
     (let tot = fmul amt price
      in case insert_transaction e 2 db credit_id buyer seller amt price tot TxCompleted of
           Inl err \<Rightarrow> Inl err
         | Inr db1 \<Rightarrow>
        (case float_ge_decimal amt (credit_amount credit) of
           Inl err \<Rightarrow> Inl err
         | Inr True \<Rightarrow> update_credit_status e 3 db1 credit_id Sold
         | Inr False \<Rightarrow>
            (case decimal_minus_float (credit_amount credit) amt of
               Inl err \<Rightarrow> Inl err
             | Inr new_amount \<Rightarrow>
                (case update_credit_amount e 3 db1 credit_id amt of
                   Inl err \<Rightarrow> Inl err
                 | Inr db2 \<Rightarrow>
                    (case decimal_column 12 2 new_amount of
                       Inl err \<Rightarrow> Inl err
                     | Inr q \<Rightarrow>
                         insert_credit e 4 db2
                           (credit\<lparr>credit_amount := q,
                              certificate_id := new_certificate_id e (c_project_id credit),
                              c_status := Available\<rparr>))))))))"

definition buy_credit ::
  "env \<Rightarrow> ledger \<Rightarrow> nat \<Rightarrow> pyfloat option http_request \<Rightarrow> ledger \<times> flash \<times> response" where
  "buy_credit e db credit_id req =
     (case session_user e of
        None \<Rightarrow> (db, Flash ''Please login to purchase credits'', Redirect ''login'')
      | Some buyer \<Rightarrow>
          if rejected e 1 then (db, FlashError DatabaseError, Redirect ''marketplace'')
          else
            (case select_available_credit db credit_id of
               None \<Rightarrow> (db, Flash ''Credit not available for purchase'', Redirect ''marketplace'')
             | Some (credit, seller) \<Rightarrow>
                 (case req of
                    GET \<Rightarrow> (db, NoFlash, Render ''buy_credit.html'')
                  | POST form_amount \<Rightarrow>
                      (case buy_credit_post e db credit_id credit buyer seller form_amount of
                         Inl err \<Rightarrow> (db, FlashError err, Redirect ''marketplace'')
                       | Inr db' \<Rightarrow>
                           (db', Flash ''Credit purchase successful!'', Redirect ''dashboard'')))))"

section \<open>index.py: generate\_report\<close>

text \<open>
  \<^verbatim>\<open>ORDER BY assessment_date DESC LIMIT 1\<close> over the assessments of one project.
  Among rows of the same second the server may return any; the model returns the one
  inserted first.
\<close>

definition latest_assessment :: "ledger \<Rightarrow> nat \<Rightarrow> assessment option" where
  "latest_assessment db project_id =
     (case filter (\<lambda>a. a_project_id a = project_id) (carbon_assessments db) of
        [] \<Rightarrow> None
      | a # as \<Rightarrow>
          Some (fold (\<lambda>b best. if assessment_date best < assessment_date b then b else best)
                  as a))"

text \<open>
  The \<^verbatim>\<open>SELECT p.*, ca.*\<close> of \<^verbatim>\<open>generate_report\<close>: the project with this id owned
  by the session's user, joined with its latest assessment.
\<close>

definition select_project_with_assessment ::
  "ledger \<Rightarrow> nat \<Rightarrow> nat \<Rightarrow> (project \<times> assessment) option" where
  "select_project_with_assessment db project_id user =
     (case find (\<lambda>p. p_id p = project_id \<and> p_user_id p = user) (projects db) of
        None \<Rightarrow> None
      | Some p \<Rightarrow>
          (case latest_assessment db project_id of
             None \<Rightarrow> None
           | Some a \<Rightarrow> Some (p, a)))"

definition update_assessment_report ::
  "env \<Rightarrow> nat \<Rightarrow> ledger \<Rightarrow> nat \<Rightarrow> string \<Rightarrow> py_error + ledger" where
  "update_assessment_report e n db assessment_id url =
     (if rejected e n then Inl DatabaseError
      else Inr (db\<lparr>carbon_assessments :=
                    map (\<lambda>a. if a_id a = assessment_id
                              then a\<lparr>report_url := Some url, a_verification_status := Approved\<rparr>
                              else a)
                      (carbon_assessments db)\<rparr>))"

definition update_project_status ::
  "env \<Rightarrow> nat \<Rightarrow> ledger \<Rightarrow> nat \<Rightarrow> project_status \<Rightarrow> py_error + ledger" where
  "update_project_status e n db project_id st =
     (if rejected e n then Inl DatabaseError
      else Inr (db\<lparr>projects :=
                    map (\<lambda>p. if p_id p = project_id then p\<lparr>p_status := st\<rparr> else p)
                      (projects db)\<rparr>))"

text \<open>
  The statements of \<^verbatim>\<open>generate_report\<close> between the \<^verbatim>\<open>SELECT\<close> and the one
  \<^verbatim>\<open>conn.commit()\<close>.  The row \<^verbatim>\<open>project_data\<close> is a dictionary built from the
  columns of \<^verbatim>\<open>p.*\<close> followed by those of \<^verbatim>\<open>ca.*\<close>; both tables have a column
  \<^verbatim>\<open>id\<close>, and the dictionary cursor keeps the first one under the key \<^verbatim>\<open>id\<close> (the
  assessment's id is filed under \<^verbatim>\<open>ca.id\<close>).  So \<^verbatim>\<open>project_data['id']\<close> is the
  project's id, as \<^verbatim>\<open>generate_assessment_report\<close> also takes it to be, while
  \<^verbatim>\<open>project_data['carbon_estimate']\<close> is the assessment's.  The call to
  \<^verbatim>\<open>generate_assessment_report\<close> catches its own exceptions and its result is not used.
  The price \<^verbatim>\<open>25.00\<close> is stored as it is.
\<close>

definition new_report_url :: "env \<Rightarrow> nat \<Rightarrow> string" where
  "new_report_url e project_id =
     ''/reports/'' @ show_nat project_id @ ''_'' @ strftime_Ymd (today e) @ ''.pdf''"

definition generate_report_body ::
  "env \<Rightarrow> ledger \<Rightarrow> nat \<Rightarrow> project \<Rightarrow> assessment \<Rightarrow> py_error + ledger" where
  "generate_report_body e db project_id p a =
     (let url = new_report_url e project_id
      in case update_assessment_report e 2 db (p_id p) url of
           Inl err \<Rightarrow> Inl err
         | Inr db1 \<Rightarrow>
        (case update_project_status e 3 db1 project_id Verified of
           Inl err \<Rightarrow> Inl err
         | Inr db2 \<Rightarrow>
        (case float_param 12 2 (float_of_decimal (carbon_estimate a)) of
           Inl err \<Rightarrow> Inl err
         | Inr q \<Rightarrow>
             insert_credit e 4 db2
               \<lparr>c_id = 0, c_project_id = project_id, c_assessment_id = p_id p,
                credit_amount = q, issuance_date = now e,
                expiry_date = Some (today e + 365 * 5),
                certificate_id = new_certificate_id e project_id, c_status = Available,
                price_per_credit = Some 25, verification_document_url = Some url\<rparr>)))"

definition generate_report :: "env \<Rightarrow> ledger \<Rightarrow> nat \<Rightarrow> ledger \<times> flash \<times> response" where
  "generate_report e db project_id =
     (case session_user e of
        None \<Rightarrow> (db, Flash ''Please login to generate a report'', Redirect ''login'')
      | Some user \<Rightarrow>
          if rejected e 1 then (db, FlashError DatabaseError, Redirect ''dashboard'')
          else
            (case select_project_with_assessment db project_id user of
               None \<Rightarrow> (db, Flash ''Project not found or unauthorized'', Redirect ''dashboard'')
             | Some (p, a) \<Rightarrow>
                 (case generate_report_body e db project_id p a of
                    Inl err \<Rightarrow> (db, FlashError err, Redirect ''dashboard'')
                  | Inr db' \<Rightarrow>
                      (db', Flash ''Verification report generated and carbon credits issued!'',
                       Redirect ''project_details''))))"

section \<open>index.py: the assessment pipeline\<close>

definition insert_satellite_data :: "env \<Rightarrow> nat \<Rightarrow> ledger \<Rightarrow> nat \<Rightarrow> py_error + ledger" where
  "insert_satellite_data e n db project_id =
     (if rejected e n then Inl DatabaseError
      else Inr (db\<lparr>satellite_data := satellite_data db @
                    [\<lparr>s_id = next_id (map s_id (satellite_data db)),
                      s_project_id = project_id, capture_date = today e\<rparr>]\<rparr>))"

text \<open>
  \<^verbatim>\<open>assessment_result.get('carbon_estimate', 0.0)\<close> and
  \<^verbatim>\<open>assessment_result.get('model_version', 'gpt-4')\<close>.  \<^verbatim>\<open>analyze_project\<close> always
  files a float under the first key and a string under the second.
\<close>

definition get_carbon_estimate :: "(string \<times> pyval) list \<Rightarrow> pyfloat" where
  "get_carbon_estimate result =
     (case map_of result ''carbon_estimate'' of Some (PFloat f) \<Rightarrow> f | _ \<Rightarrow> Finite 0)"

definition get_model_version :: "(string \<times> pyval) list \<Rightarrow> string" where
  "get_model_version result =
     (case map_of result ''model_version'' of Some (PStr s) \<Rightarrow> s | _ \<Rightarrow> ''gpt-4'')"

definition insert_assessment ::
  "env \<Rightarrow> nat \<Rightarrow> ledger \<Rightarrow> nat \<Rightarrow> (string \<times> pyval) list \<Rightarrow> py_error + ledger" where
  "insert_assessment e n db project_id result =
     (if rejected e n then Inl DatabaseError
      else case float_param 12 2 (get_carbon_estimate result) of
             Inl err \<Rightarrow> Inl err
           | Inr q \<Rightarrow>
               Inr (db\<lparr>carbon_assessments := carbon_assessments db @
                      [\<lparr>a_id = next_id (map a_id (carbon_assessments db)),
                        a_project_id = project_id, assessment_date = now e,
                        carbon_estimate = q, ai_model_version = get_model_version result,
                        a_verification_status = Pending, report_url = None\<rparr>]\<rparr>))"

definition insert_verification_log ::
  "env \<Rightarrow> nat \<Rightarrow> ledger \<Rightarrow> nat \<Rightarrow> nat \<Rightarrow> (string \<times> pyval) list \<Rightarrow> py_error + ledger" where
  "insert_verification_log e n db project_id assessment_id result =
     (if rejected e n then Inl DatabaseError
      else Inr (db\<lparr>ai_verification_logs := ai_verification_logs db @
                    [\<lparr>l_id = next_id (map l_id (ai_verification_logs db)),
                      l_project_id = project_id, l_assessment_id = Some assessment_id,
                      model_used = get_model_version result\<rparr>]\<rparr>))"

text \<open>
  The block that \<^verbatim>\<open>register_project\<close> and \<^verbatim>\<open>project_assessment\<close> both contain, with
  the same position in each: the third \<^verbatim>\<open>execute\<close> stores the satellite observation,
  the fourth the assessment, the fifth reads \<^verbatim>\<open>LAST_INSERT_ID()\<close>, the sixth writes
  the verification log, and \<^verbatim>\<open>conn.commit()\<close> follows each insert.
  \<^verbatim>\<open>fetch_satellite_imagery\<close> catches its own exceptions and always returns a
  dictionary.  The result is the ledger as last committed, with the exception that
  ended the block, if one did.
\<close>

definition record_assessment ::
  "env \<Rightarrow> ledger \<Rightarrow> nat \<Rightarrow> project_data \<Rightarrow> ledger \<times> py_error option" where
  "record_assessment e db project_id pd =
     (case insert_satellite_data e 3 db project_id of
        Inl err \<Rightarrow> (db, Some err)
      | Inr db1 \<Rightarrow>
     (let assessment_result = analyze_project (float_of_str e) (ai_call e) pd
      in case insert_assessment e 4 db1 project_id assessment_result of
           Inl err \<Rightarrow> (db1, Some err)
         | Inr db2 \<Rightarrow>
             if rejected e 5 then (db2, Some DatabaseError)
             else
               (let assessment_id = next_id (map a_id (carbon_assessments db1))
                in case insert_verification_log e 6 db2 project_id assessment_id
                          assessment_result of
                     Inl err \<Rightarrow> (db2, Some err)
                   | Inr db3 \<Rightarrow> (db3, None))))"

section \<open>index.py: register\_project\<close>

text \<open>
  The form of \<^verbatim>\<open>register_project\<close>.  \<open>f_area_size\<close> is the number that the text of
  the field denotes, \<open>None\<close> when it is not a number.  The server, in strict mode,
  rejects a text that is not a number for a \<^verbatim>\<open>DECIMAL\<close> column and a word outside
  an \<^verbatim>\<open>ENUM\<close>; Python's \<^verbatim>\<open>float\<close> reads the same number as the nearest float.
\<close>

record project_form =
  f_project_type :: string
  f_area_size :: "rat option"
  f_area_unit :: string

definition insert_project ::
  "env \<Rightarrow> nat \<Rightarrow> ledger \<Rightarrow> nat \<Rightarrow> project_form \<Rightarrow> py_error + ledger" where
  "insert_project e n db user form =
     (if rejected e n then Inl DatabaseError
      else if f_project_type form \<notin>
                set [''forestry'', ''agriculture'', ''agroforestry'', ''wetland'', ''other'']
        then Inl DataError
      else if f_area_unit form \<notin> set [''hectares'', ''acres''] then Inl DataError
      else case f_area_size form of
             None \<Rightarrow> Inl DataError
           | Some x \<Rightarrow>
              (case decimal_column 10 2 x of
                 Inl err \<Rightarrow> Inl err
               | Inr q \<Rightarrow>
                   Inr (db\<lparr>projects := projects db @
                          [\<lparr>p_id = next_id (map p_id (projects db)), p_user_id = user,
                            p_project_type = f_project_type form, p_area_size = q,
                            p_area_unit = f_area_unit form, p_status = Registered\<rparr>]\<rparr>)))"

definition register_project_post ::
  "env \<Rightarrow> ledger \<Rightarrow> nat \<Rightarrow> project_form \<Rightarrow> ledger \<times> py_error option" where
  "register_project_post e db user form =
     (case insert_project e 1 db user form of
        Inl err \<Rightarrow> (db, Some err)
      | Inr db1 \<Rightarrow>
          if rejected e 2 then (db1, Some DatabaseError)
          else
            (let project_id = next_id (map p_id (projects db));
                 pd = \<lparr>project_type = f_project_type form,
                       area_size = (case f_area_size form of
                                      Some x \<Rightarrow> fl x | None \<Rightarrow> NaN),
                       area_unit = f_area_unit form\<rparr>
             in case record_assessment e db1 project_id pd of
                  (db2, Some err) \<Rightarrow> (db2, Some err)
                | (db2, None) \<Rightarrow>
                    (case update_project_status e 7 db2 project_id Assessing of
                       Inl err \<Rightarrow> (db2, Some err)
                     | Inr db3 \<Rightarrow> (db3, None))))"

definition register_project ::
  "env \<Rightarrow> ledger \<Rightarrow> project_form http_request \<Rightarrow> ledger \<times> flash \<times> response" where
  "register_project e db req =
     (case session_user e of
        None \<Rightarrow> (db, Flash ''Please login to register a project'', Redirect ''login'')
      | Some user \<Rightarrow>
          (case req of
             GET \<Rightarrow> (db, NoFlash, Render ''register_project.html'')
           | POST form \<Rightarrow>
               (case register_project_post e db user form of
                  (db', Some err) \<Rightarrow> (db', FlashError err, Render ''register_project.html'')
                | (db', None) \<Rightarrow>
                    (db', Flash ''Project registered successfully!'',
                     Redirect ''project_assessment''))))"

section \<open>index.py: project\_assessment\<close>

definition project_assessment :: "env \<Rightarrow> ledger \<Rightarrow> nat \<Rightarrow> ledger \<times> flash \<times> response" where
  "project_assessment e db project_id =
     (case session_user e of
        None \<Rightarrow> (db, Flash ''Please login to view project assessment'', Redirect ''login'')
      | Some user \<Rightarrow>
          if rejected e 1 then (db, FlashError DatabaseError, Redirect ''dashboard'')
          else
            (case find (\<lambda>p. p_id p = project_id \<and> p_user_id p = user) (projects db) of
               None \<Rightarrow> (db, Flash ''Project not found or unauthorized'', Redirect ''dashboard'')
             | Some project \<Rightarrow>
                 (case update_project_status e 2 db project_id Assessing of
                    Inl err \<Rightarrow> (db, FlashError err, Redirect ''dashboard'')
                  | Inr db1 \<Rightarrow>
                      (let pd = \<lparr>project_type = p_project_type project,
                                 area_size = float_of_decimal (p_area_size project),
                                 area_unit = p_area_unit project\<rparr>
                       in case record_assessment e db1 project_id pd of
                            (db2, Some err) \<Rightarrow> (db2, FlashError err, Render ''assessment.html'')
                          | (db2, None) \<Rightarrow>
                              if rejected e 7
                              then (db2, FlashError DatabaseError, Render ''assessment.html'')
                              else (db2, NoFlash, Render ''assessment.html'')))))"

section \<open>Observations on the ledger\<close>

text \<open>The sum of \<^verbatim>\<open>credit_amount\<close> over the lots that come from one assessment.\<close>

definition lot_total :: "ledger \<Rightarrow> nat \<Rightarrow> rat" where
  "lot_total db a =
     sum_list (map credit_amount (filter (\<lambda>c. c_assessment_id c = a) (carbon_credits db)))"

text \<open>The rows that \<^verbatim>\<open>setup_database\<close> inserts, at a time \<open>t0\<close>.\<close>

definition seed_ledger :: "int \<Rightarrow> ledger" where
  "seed_ledger t0 =
     \<lparr>projects =
        [\<lparr>p_id = 1, p_user_id = 1, p_project_type = ''forestry'', p_area_size = 100,
          p_area_unit = ''hectares'', p_status = Registered\<rparr>,
         \<lparr>p_id = 2, p_user_id = 2, p_project_type = ''wetland'', p_area_size = 50,
          p_area_unit = ''acres'', p_status = Registered\<rparr>],
      carbon_assessments =
        [\<lparr>a_id = 1, a_project_id = 1, assessment_date = t0, carbon_estimate = 5000,
          ai_model_version = ''gpt-4'', a_verification_status = Approved, report_url = None\<rparr>,
         \<lparr>a_id = 2, a_project_id = 2, assessment_date = t0, carbon_estimate = 3000,
          ai_model_version = ''gpt-4'', a_verification_status = Approved, report_url = None\<rparr>],
      carbon_credits =
        [\<lparr>c_id = 1, c_project_id = 1, c_assessment_id = 1, credit_amount = 5000,
          issuance_date = t0, expiry_date = Some (days_from_civil 2028 1 1),
          certificate_id = ''CC-1-abc123'', c_status = Available,
          price_per_credit = Some 25,
          verification_document_url = Some ''/reports/1_20230101.pdf''\<rparr>,
         \<lparr>c_id = 2, c_project_id = 2, c_assessment_id = 2, credit_amount = 3000,
          issuance_date = t0, expiry_date = Some (days_from_civil 2028 2 1),
          certificate_id = ''CC-2-def456'', c_status = Available,
          price_per_credit = Some 30,
          verification_document_url = Some ''/reports/2_20230201.pdf''\<rparr>],
      transactions =
        [\<lparr>t_id = 1, t_credit_id = 1, buyer_id = 2, seller_id = 1, amount = 1000,
          price_per_unit = 25, total_price = 25000, transaction_date = t0,
          t_status = TxCompleted\<rparr>,
         \<lparr>t_id = 2, t_credit_id = 2, buyer_id = 1, seller_id = 2, amount = 500,
          price_per_unit = 30, total_price = 15000, transaction_date = t0,
          t_status = TxCompleted\<rparr>],
      satellite_data =
        [\<lparr>s_id = 1, s_project_id = 1, capture_date = days_from_civil 2023 1 15\<rparr>,
         \<lparr>s_id = 2, s_project_id = 2, capture_date = days_from_civil 2023 2 15\<rparr>],
      ai_verification_logs =
        [\<lparr>l_id = 1, l_project_id = 1, l_assessment_id = Some 1, model_used = ''gpt-4''\<rparr>,
         \<lparr>l_id = 2, l_project_id = 2, l_assessment_id = Some 2, model_used = ''gpt-4''\<rparr>]\<rparr>"

text \<open>A logged-in user posting at time \<open>t\<close>, with no statement rejected.\<close>

definition request_of :: "nat \<Rightarrow> int \<Rightarrow> env" where
  "request_of user t =
     \<lparr>session_user = Some user, now = t, token_hex = ''9f3a61c2'', ai_call = AIRaised,
      float_of_str = Map.empty, fails_at = None\<rparr>"

text \<open>
  Those rows after the owner of project 2 has opened its assessment page on 2026-11-02
  with the hosted model out of reach: the project has a second assessment, number 3,
  with the fallback estimate of 240 for its 50 acres of wetland.
\<close>

definition reassessed_ledger :: ledger where
  "reassessed_ledger =
     fst (project_assessment (request_of 2 1793620800) (seed_ledger 1690000000) 2)"

text \<open>The status of a project, and a day number moved by whole calendar years.\<close>

definition project_status_of :: "ledger \<Rightarrow> nat \<Rightarrow> project_status option" where
  "project_status_of db project_id =
     map_option p_status (find (\<lambda>p. p_id p = project_id) (projects db))"

definition add_years :: "int \<Rightarrow> int \<Rightarrow> int" where
  "add_years k z = (case civil_from_days z of (y, m, d) \<Rightarrow> days_from_civil (y + k) m d)"

text \<open>A value that a \<^verbatim>\<open>DECIMAL(p, s)\<close> column can hold is one that it stores unchanged.\<close>

definition is_decimal :: "nat \<Rightarrow> nat \<Rightarrow> rat \<Rightarrow> bool" where
  "is_decimal p s x = (decimal_column p s x = Inr x)"

text \<open>
  How many rows a table has gained: \<open>Some n\<close> when the new table is the old one
  followed by \<open>n\<close> more rows, \<open>None\<close> when an old row was changed or removed.
\<close>

definition appended_rows :: "'a list \<Rightarrow> 'a list \<Rightarrow> nat option" where
  "appended_rows old new =
     (if take (length old) new = old then Some (length new - length old) else None)"

definition pipeline_rows :: "ledger \<Rightarrow> ledger \<Rightarrow> nat option \<times> nat option \<times> nat option" where
  "pipeline_rows db db' =
     (appended_rows (satellite_data db) (satellite_data db'),
      appended_rows (carbon_assessments db) (carbon_assessments db'),
      appended_rows (ai_verification_logs db) (ai_verification_logs db'))"

section \<open>Facts about floats and decimal columns\<close>

text \<open>
  A two-decimal value of a \<^verbatim>\<open>DECIMAL(12, 2)\<close> column survives the trip through
  \<^verbatim>\<open>float\<close> and back into such a column: it is below \<open>2^34\<close>, so the nearest float
  is within \<open>2^-20\<close> of it, and the column's rounding restores it.
\<close>

lemma pow2_powi: "pow2 k = 2 powi k"
  by (simp add: pow2_def power_int_def field_simps)

lemma pow2_pos: "0 < pow2 k"
  by (simp add: pow2_powi)

lemma pow2_mono: "a \<le> b \<Longrightarrow> pow2 a \<le> pow2 b"
  by (simp add: pow2_powi power_int_increasing)

lemma pow2_less_imp: "pow2 a < pow2 b \<Longrightarrow> a < b"
  using pow2_mono [of b a] by (cases "a < b") auto

lemma pow2_add: "pow2 (a + b) = pow2 a * pow2 b"
  by (simp add: pow2_powi power_int_add)

lemma bitlen_bounds:
  "0 < n \<Longrightarrow> 2 ^ (bitlen n - 1) \<le> n \<and> n < 2 ^ bitlen n"
proof (induction n rule: bitlen.induct)
  case (1 n)
  show ?case
  proof (cases "n div 2 \<le> 0")
    case True
    with "1.prems" have "n = 1" by linarith
    then show ?thesis 
      by (simp add: bitlen.simps)
  next
    case False
    then have pos: "0 < n div 2" by simp
    from "1.IH" "1.prems" pos
    have ih: "2 ^ (bitlen (n div 2) - 1) \<le> n div 2 \<and> n div 2 < 2 ^ bitlen (n div 2)"
      by simp
    have bl: "bitlen n = Suc (bitlen (n div 2))"
      using "1.prems" by (subst bitlen.simps) simp
    have bpos: "0 < bitlen (n div 2)"
      using pos by (subst bitlen.simps) simp
    then obtain k where k: "bitlen (n div 2) = Suc k"
      by (cases "bitlen (n div 2)") auto
    from ih k have "2 ^ k \<le> n div 2" "n div 2 < 2 ^ Suc k" by simp_all
    then have "2 * 2 ^ k \<le> n" "n < 2 * 2 ^ Suc k" by linarith+
    then show ?thesis by (simp add: bl k)
  qed
qed

text \<open>The exponent found by \<^const>\<open>ilog2\<close> is not above the value.\<close>

lemma ilog2_le:
  assumes "0 < x"
  shows "pow2 (ilog2 x) \<le> x"
proof -
  obtain p q where pq: "quotient_of x = (p, q)" by (cases "quotient_of x")
  then have q: "0 < q" and x: "x = of_int p / of_int q"
    by (simp_all add: quotient_of_denom_pos quotient_of_div)
  with assms have p: "0 < p"
    by (simp add: zero_less_divide_iff)
  define e0 where "e0 = int (bitlen p) - int (bitlen q)"
  have il: "ilog2 x = (if pow2 e0 \<le> x then e0 else e0 - 1)"
    by (simp add: ilog2_def pq e0_def Let_def)
  show ?thesis
  proof (cases "pow2 e0 \<le> x")
    case True
    then show ?thesis by (simp add: il)
  next
    case False
    from bitlen_bounds [OF p] have lo: "2 ^ (bitlen p - 1) \<le> p" by simp
    from bitlen_bounds [OF q] have hi: "q < 2 ^ bitlen q" by simp
    have bp: "0 < bitlen p" using p by (subst bitlen.simps) simp
    have "e0 - 1 = int (bitlen p - 1) - int (bitlen q)"
      using bp by (simp add: e0_def of_nat_diff)
    then have "pow2 (e0 - 1) = 2 powi (int (bitlen p - 1) - int (bitlen q))"
      by (simp add: pow2_powi)
    also have "\<dots> = 2 ^ (bitlen p - 1) / 2 ^ bitlen q"
      by (simp add: power_int_diff)
    also have "\<dots> \<le> of_int p / 2 ^ bitlen q"
    proof -
      have "(2 :: rat) ^ (bitlen p - 1) \<le> of_int p"
        using lo by (metis of_int_le_iff of_int_numeral of_int_power)
      then show ?thesis by (simp add: divide_right_mono)
    qed
    also have "\<dots> \<le> of_int p / of_int q"
    proof -
      have "(of_int q :: rat) \<le> 2 ^ bitlen q"
        using hi by (metis less_imp_le of_int_le_iff of_int_numeral of_int_power)
      then show ?thesis
        using p q by (simp add: frac_le)
    qed
    finally have "pow2 (e0 - 1) \<le> x" by (simp add: x)
    then show ?thesis using False by (simp add: il)
  qed
qed

lemma round_half_even_close: "\<bar>of_int (round_half_even y) - y\<bar> \<le> 1 / 2"
  unfolding round_half_even_def Let_def
  by (auto simp: abs_if) linarith+


lemma fl_near:
  assumes "x \<noteq> 0" and "\<bar>x\<bar> < 2 ^ 34"
  shows "\<exists>y. fl x = Finite y \<and> \<bar>y - x\<bar> \<le> 1 / 2 ^ 20"
proof -
  define e where "e = max (ilog2 \<bar>x\<bar>) (- 1022)"
  define q where "q = pow2 (e - 52)"
  define m where "m = round_half_even (\<bar>x\<bar> / q)"
  define y where "y = of_int m * q"
  have xpos: "0 < \<bar>x\<bar>" using assms(1) by simp
  have "pow2 (ilog2 \<bar>x\<bar>) < pow2 34"
    using ilog2_le [OF xpos] assms(2) by (simp add: pow2_def)
  then have "ilog2 \<bar>x\<bar> < 34" by (rule pow2_less_imp)
  then have e: "e \<le> 33" by (simp add: e_def)
  have qpos: "0 < q" by (simp add: q_def pow2_pos)
  have "q \<le> pow2 (- 19)"
    unfolding q_def using e by (intro pow2_mono) simp
  then have qle: "q \<le> 1 / 2 ^ 19" by (simp add: pow2_def)
  have "y - \<bar>x\<bar> = q * (of_int m - \<bar>x\<bar> / q)"
    using qpos by (simp add: y_def field_simps)
  then have "\<bar>y - \<bar>x\<bar>\<bar> = q * \<bar>of_int m - \<bar>x\<bar> / q\<bar>"
    using qpos by (simp add: abs_mult)
  also have "\<dots> \<le> q * (1 / 2)"
    using qpos round_half_even_close [of "\<bar>x\<bar> / q"]
    by (intro mult_left_mono) (simp_all add: m_def)
  also have "\<dots> \<le> 1 / 2 ^ 19 * (1 / 2)"
    using qle by (intro mult_right_mono) simp_all
  finally have near: "\<bar>y - \<bar>x\<bar>\<bar> \<le> 1 / 2 ^ 20" by simp
  have no_overflow: "\<not> (0 < y \<and> 1024 \<le> ilog2 y)"
  proof
    assume a: "0 < y \<and> 1024 \<le> ilog2 y"
    then have "pow2 (ilog2 y) \<le> y" by (simp add: ilog2_le)
    also have "y \<le> \<bar>x\<bar> + 1 / 2 ^ 20" using near by linarith
    also have "\<dots> < pow2 35" using assms(2) by (simp add: pow2_def)
    finally have "ilog2 y < 35" by (rule pow2_less_imp)
    with a show False by simp
  qed
  have "fl x = Finite (sgn x * y)"
    using assms(1) no_overflow
    by (simp add: fl_def Let_def e_def [symmetric] q_def [symmetric] m_def [symmetric]
        y_def [symmetric])
  moreover have "\<bar>sgn x * y - x\<bar> = \<bar>y - \<bar>x\<bar>\<bar>"
  proof -
    have "sgn x * y - x = sgn x * (y - \<bar>x\<bar>)"
      using abs_sgn [of x] by (simp add: algebra_simps)
    then show ?thesis
      using assms(1) by (simp add: abs_mult abs_sgn_eq)
  qed
  ultimately show ?thesis using near by simp
qed

lemma round_half_away_near:
  assumes "\<bar>z - of_int n\<bar> < 1 / 2"
  shows "round_half_away z = n"
  using assms unfolding round_half_away_def
  by (auto simp: abs_if split: if_splits) linarith+

lemma decimal_round_trip:
  assumes "is_decimal 12 2 d"
  shows "float_param 12 2 (float_of_decimal d) = Inr d"
proof -
  define n where "n = round_half_away (d * 10 ^ 2)"
  from assms have n: "\<bar>n\<bar> < 10 ^ 12" and d: "d = of_int n / 10 ^ 2"
    by (auto simp: is_decimal_def decimal_column_def Let_def n_def split: if_splits)
  show ?thesis
  proof (cases "d = 0")
    case True
    have "\<lfloor>1 / 2 :: rat\<rfloor> = 0" by (simp add: floor_eq_iff)
    with True show ?thesis
      by (simp add: float_of_decimal_def fl_def decimal_column_def round_half_away_def)
  next
    case False
    have "\<bar>of_int n :: rat\<bar> < 10 ^ 12"
      using n by (metis of_int_abs of_int_less_iff of_int_numeral of_int_power)
    then have "\<bar>d\<bar> < 10 ^ 10" by (simp add: d)
    then have "\<bar>d\<bar> < 2 ^ 34" by simp
    from fl_near [OF False this] obtain y
      where y: "fl d = Finite y" "\<bar>y - d\<bar> \<le> 1 / 2 ^ 20"
      by blast
    have "y * 10 ^ 2 - of_int n = (y - d) * 100"
      by (simp add: d algebra_simps)
    then have "\<bar>y * 10 ^ 2 - of_int n\<bar> = \<bar>(y - d) * 100\<bar>"
      by (rule arg_cong)
    also have "\<dots> = \<bar>y - d\<bar> * 100"
      by (simp only: abs_mult abs_numeral)
    finally have "\<bar>y * 10 ^ 2 - of_int n\<bar> = \<bar>y - d\<bar> * 100" .
    also have "\<bar>y - d\<bar> * 100 \<le> 1 / 2 ^ 20 * 100"
      using y(2) by (intro mult_right_mono) simp_all
    also have "\<dots> < 1 / 2" by simp
    finally have r: "round_half_away (y * 10 ^ 2) = n"
      by (rule round_half_away_near)
    have "float_param 12 2 (fl d) = decimal_column 12 2 y"
      by (simp add: y(1))
    also have "\<dots> = Inr (of_int n / 10 ^ 2)"
      using r n by (simp add: decimal_column_def)
    finally have "float_param 12 2 (fl d) = Inr (of_int n / 10 ^ 2)" .
    also have "of_int n / 10 ^ 2 = d" by (rule d [symmetric])
    finally show ?thesis
      by (simp only: float_of_decimal_def)
  qed
qed

section \<open>Facts about the numbers and the strings\<close>

lemma is_substring_iff:
  "is_substring needle s \<longleftrightarrow> (\<exists>pre suf. s = pre @ needle @ suf)"
proof (induction s)
  case Nil
  show ?case by auto
next
  case (Cons c cs)
  show ?case
  proof
    assume "is_substring needle (c # cs)"
    then consider "take (length needle) (c # cs) = needle" | "is_substring needle cs"
      by auto
    then show "\<exists>pre suf. c # cs = pre @ needle @ suf"
    proof cases
      case 1
      then have "c # cs = [] @ needle @ drop (length needle) (c # cs)"
        by (metis append_Nil append_take_drop_id)
      then show ?thesis by blast
    next
      case 2
      then obtain pre suf where "cs = pre @ needle @ suf"
        using Cons.IH by auto
      then have "c # cs = (c # pre) @ needle @ suf" by simp
      then show ?thesis by blast
    qed
  next
    assume "\<exists>pre suf. c # cs = pre @ needle @ suf"
    then obtain pre suf where eq: "c # cs = pre @ needle @ suf" by auto
    show "is_substring needle (c # cs)"
    proof (cases pre)
      case Nil
      with eq have "take (length needle) (c # cs) = needle" by simp
      then show ?thesis by simp
    next
      case (Cons p ps)
      with eq have "cs = ps @ needle @ suf" by simp
      then have "is_substring needle cs" using Cons.IH by auto
      then show ?thesis by simp
    qed
  qed
qed

lemma fl_one: "fl 1 = Finite 1"
  by code_simp

lemma fl_seven_halves: "fl (7 / 2) = Finite (7 / 2)"
  by code_simp

lemma annual_rate_table:
  "annual_rate ''forestry'' = Finite (7 / 2)"
  "annual_rate ''agriculture'' = fl (12 / 10)"
  "annual_rate ''agroforestry'' = fl (28 / 10)"
  "annual_rate ''wetland'' = fl (48 / 10)"
  "annual_rate ''other'' = Finite 1"
  by (simp_all add: annual_rate_def rates_def fl_one fl_seven_halves)

lemma estimate_fallback_forestry_100_hectares:
  "estimate_fallback
     \<lparr>project_type = ''forestry'', area_size = Finite 100, area_unit = ''hectares''\<rparr>
   = Finite (8645 / 10)"
  by code_simp

lemma estimate_fallback_agriculture_1_hectare:
  "estimate_fallback
     \<lparr>project_type = ''agriculture'', area_size = Finite 1, area_unit = ''hectares''\<rparr>
   = Finite (3332663724254167 / 1125899906842624)"
  by code_simp

lemma product_agriculture_1_hectare:
  "fmul (fmul (Finite 1) (fl (247 / 100))) (fl (12 / 10))
   = Finite (6674334647763075 / 2251799813685248)"
  by code_simp

text \<open>Whatever the reply, the result has a float under \<^verbatim>\<open>carbon_estimate\<close>.\<close>

lemma analyze_project_files_a_float:
  "\<exists>f. map_of (analyze_project py_float outcome pd) ''carbon_estimate'' = Some (PFloat f)"
proof (cases outcome)
  case AIRaised
  then show ?thesis
    by (simp add: analyze_project_def fallback_result_def)
next
  case (AIReply reply)
  show ?thesis
  proof (cases "parse_reply py_float reply")
    case (Inl err)
    with AIReply show ?thesis
      by (simp add: analyze_project_def fallback_result_def)
  next
    case (Inr result)
    then have "\<exists>f r. result = AList.update ''carbon_estimate'' (PFloat f) r"
      by (auto simp: parse_reply_def Let_def
          split: pyval.splits sum.splits bool.splits option.splits)
    then show ?thesis
      using AIReply Inr by (auto simp: analyze_project_def update_conv')
  qed
qed

section \<open>The fallback estimate\<close>

text \<open>
  C5, as the specification states it, fails: the fallback estimate is not the product
  \<open>area_in_acres \<times> annual_rate\<close> itself.  For one hectare of agriculture the product
  is the float \<open>2.964\<close> (and \<open>1 \<times> 2.47 \<times> 1.2 = 2.964\<close> exactly), while
  \<^verbatim>\<open>estimate_fallback\<close> returns \<open>2.96\<close>.
\<close>

theorem estimate_fallback_is_not_the_product:
  "estimate_fallback
     \<lparr>project_type = ''agriculture'', area_size = Finite 1, area_unit = ''hectares''\<rparr>
   \<noteq> fmul (fmul (Finite 1) (fl (247 / 100))) (fl (12 / 10))
   \<and> estimate_fallback
     \<lparr>project_type = ''agriculture'', area_size = Finite 1, area_unit = ''hectares''\<rparr>
   \<noteq> Finite (1 * (247 / 100) * (12 / 10))"
  unfolding estimate_fallback_agriculture_1_hectare product_agriculture_1_hectare
  by simp

text \<open>
  C5, amended: when the call to the AI collaborator fails, \<^verbatim>\<open>analyze_project\<close>
  returns a carbon estimate equal to \<open>area_in_acres \<times> annual_rate(project_type)\<close>
  rounded to two decimal places, where \<open>area_in_acres\<close> is \<open>area \<times> 2.47\<close> for
  hectares and \<open>area\<close> for any other unit, and the rates are forestry 3.5,
  agriculture 1.2, agroforestry 2.8, wetland 4.8, other 1.0; the confidence score is 70
  and the methodology is the fixed label.  For 100 hectares of forestry the estimate
  is 864.5.
\<close>

theorem fallback_estimate_when_ai_fails:
  "map_of (analyze_project py_float AIRaised pd) ''carbon_estimate'' =
     Some (PFloat (py_round2
       (fmul (fmul (area_size pd)
                   (if area_unit pd = ''hectares'' then fl (247 / 100) else Finite 1))
             (annual_rate (project_type pd)))))
   \<and> map_of (analyze_project py_float AIRaised pd) ''confidence_score'' = Some (PInt 70)
   \<and> map_of (analyze_project py_float AIRaised pd) ''methodology'' =
       Some (PStr ''AI-assisted estimation with standard factors'')
   \<and> annual_rate ''forestry'' = Finite (35 / 10)
   \<and> annual_rate ''agriculture'' = fl (12 / 10)
   \<and> annual_rate ''agroforestry'' = fl (28 / 10)
   \<and> annual_rate ''wetland'' = fl (48 / 10)
   \<and> annual_rate ''other'' = Finite 1
   \<and> map_of (analyze_project py_float AIRaised
         \<lparr>project_type = ''forestry'', area_size = Finite 100, area_unit = ''hectares''\<rparr>)
       ''carbon_estimate'' = Some (PFloat (Finite (8645 / 10)))"
  by (simp add: analyze_project_def fallback_result_def annual_rate_table
      estimate_fallback_forestry_100_hectares)
    (simp add: estimate_fallback_def unit_multiplier_def)

section \<open>A reply with an unexpected unit\<close>

text \<open>
  C10: when the reply parses as a JSON object whose \<^verbatim>\<open>carbon_estimate\<close> is a string
  that does not contain \<^verbatim>\<open>tons CO2e/year\<close>, \<^verbatim>\<open>analyze_project\<close> returns the reply
  with \<^verbatim>\<open>carbon_estimate\<close> set to 0.0 and \<^verbatim>\<open>model_version\<close> set to \<^verbatim>\<open>gpt-4\<close>;
  the project data, and so the fallback formula, play no part.
\<close>

theorem analyze_project_unexpected_unit:
  assumes "map_of result ''carbon_estimate'' = Some (PStr s)"
    and "\<not> (\<exists>pre suf. s = pre @ ''tons CO2e/year'' @ suf)"
  shows "analyze_project py_float (AIReply (PDict result)) pd =
           AList.update ''carbon_estimate'' (PFloat (Finite 0))
             (AList.update ''model_version'' (PStr ''gpt-4'') result)
         \<and> map_of (analyze_project py_float (AIReply (PDict result)) pd) ''carbon_estimate''
             = Some (PFloat (Finite 0))
         \<and> map_of (analyze_project py_float (AIReply (PDict result)) pd) ''model_version''
             = Some (PStr ''gpt-4'')"
  using assms
  by (simp add: analyze_project_def parse_reply_def is_substring_iff update_conv')

theorem analyze_project_unexpected_unit_witness:
  "map_of [(''carbon_estimate'', PStr ''120 tCO2e''), (''confidence_score'', PInt 85)]
       ''carbon_estimate'' = Some (PStr ''120 tCO2e'')
   \<and> \<not> (\<exists>pre suf. ''120 tCO2e'' = pre @ ''tons CO2e/year'' @ suf)
   \<and> analyze_project (\<lambda>s. None)
         (AIReply (PDict [(''carbon_estimate'', PStr ''120 tCO2e''),
                          (''confidence_score'', PInt 85)]))
         \<lparr>project_type = ''forestry'', area_size = Finite 100, area_unit = ''hectares''\<rparr>
       = [(''carbon_estimate'', PFloat (Finite 0)), (''confidence_score'', PInt 85),
          (''model_version'', PStr ''gpt-4'')]
   \<and> estimate_fallback
         \<lparr>project_type = ''forestry'', area_size = Finite 100, area_unit = ''hectares''\<rparr>
       = Finite (8645 / 10)"
proof -
  have h1: "map_of [(''carbon_estimate'', PStr ''120 tCO2e''), (''confidence_score'', PInt 85)]
       ''carbon_estimate'' = Some (PStr ''120 tCO2e'')"
    by simp
  have h2: "\<not> (\<exists>pre suf. ''120 tCO2e'' = pre @ ''tons CO2e/year'' @ suf)"
    unfolding is_substring_iff [symmetric] by simp
  show ?thesis
    using analyze_project_unexpected_unit [OF h1 h2, of "\<lambda>s. None"
        "\<lparr>project_type = ''forestry'', area_size = Finite 100, area_unit = ''hectares''\<rparr>"]
      h1 h2 estimate_fallback_forestry_100_hectares
    by simp
qed

section \<open>Purchases\<close>

lemma buy_credit_post_Inr:
  assumes "buy_credit_post e db cid c b s form = Inr db'"
  shows "\<exists>amt ppc a p t.
           form = Some amt \<and> price_per_credit c = Some ppc
         \<and> \<not> rejected e 2 \<and> \<not> rejected e 3
         \<and> float_param 12 2 amt = Inr a
         \<and> float_param 10 2 (fl ppc) = Inr p
         \<and> float_param 12 2 (fmul amt (fl ppc)) = Inr t
         \<and> float_ge_decimal amt (credit_amount c) = Inr True
         \<and> db' = db
             \<lparr>transactions := transactions db @
                [\<lparr>t_id = next_id (map t_id (transactions db)), t_credit_id = cid,
                  buyer_id = b, seller_id = s, amount = a, price_per_unit = p,
                  total_price = t, transaction_date = now e, t_status = TxCompleted\<rparr>],
              carbon_credits :=
                map (\<lambda>c. if c_id c = cid then c\<lparr>c_status := Sold\<rparr> else c)
                  (carbon_credits db)\<rparr>"
  using assms
  by (auto simp: buy_credit_post_def insert_transaction_def update_credit_status_def
      decimal_minus_float_def float_of_decimal_def Let_def
      split: option.splits sum.splits bool.splits if_splits
      elim!: float_of_nullable.elims)

lemma buy_credit_post_full:
  assumes "price_per_credit c = Some ppc"
    and "\<not> rejected e 2" and "\<not> rejected e 3"
    and "float_param 12 2 amt = Inr a"
    and "float_param 10 2 (fl ppc) = Inr p"
    and "float_param 12 2 (fmul amt (fl ppc)) = Inr t"
    and "float_ge_decimal amt (credit_amount c) = Inr True"
  shows "buy_credit_post e db cid c b s (Some amt) = Inr (db
             \<lparr>transactions := transactions db @
                [\<lparr>t_id = next_id (map t_id (transactions db)), t_credit_id = cid,
                  buyer_id = b, seller_id = s, amount = a, price_per_unit = p,
                  total_price = t, transaction_date = now e, t_status = TxCompleted\<rparr>],
              carbon_credits :=
                map (\<lambda>c. if c_id c = cid then c\<lparr>c_status := Sold\<rparr> else c)
                  (carbon_credits db)\<rparr>)"
  using assms
  by (simp add: buy_credit_post_def insert_transaction_def update_credit_status_def
      float_of_decimal_def Let_def)

lemma buy_credit_post_partial:
  assumes "float_ge_decimal amt (credit_amount c) = Inr False"
  shows "\<exists>err. buy_credit_post e db cid c b s (Some amt) = Inl err"
  using assms
  by (auto simp: buy_credit_post_def decimal_minus_float_def Let_def
      split: option.splits sum.splits bool.splits if_splits)

lemma buy_credit_success:
  assumes "buy_credit e db credit_id req = (db', Flash ''Credit purchase successful!'', r)"
  shows "\<exists>c b s form. session_user e = Some b \<and> req = POST form
           \<and> select_available_credit db credit_id = Some (c, s)
           \<and> buy_credit_post e db credit_id c b s form = Inr db'"
  using assms unfolding buy_credit_def
  by (auto split: option.splits if_splits prod.splits http_request.splits sum.splits)


lemma rejected_none: "fails_at e = None \<Longrightarrow> \<not> rejected e n"
  by (simp add: rejected_def)

text \<open>
  The two writes of the split branch, \<^verbatim>\<open>UPDATE carbon_credits SET credit_amount\<close>
  and the \<^verbatim>\<open>INSERT\<close> of the sibling lot: given the remainder, they leave the sum
  over the lots of every assessment as it was.  This is the split that the handler
  sets out to make.
\<close>

lemma map_other_ids:
  "cid \<notin> set (map c_id cs) \<Longrightarrow> map (\<lambda>c. if c_id c = cid then f c else c) cs = cs"
  by (induction cs) auto

lemma sum_after_amount_update:
  assumes "distinct (map c_id cs)" and "find (\<lambda>c. c_id c = cid) cs = Some credit"
  shows "sum_list (map credit_amount (filter (\<lambda>c. c_assessment_id c = a)
           (map (\<lambda>c. if c_id c = cid then c\<lparr>credit_amount := q\<rparr> else c) cs)))
       = sum_list (map credit_amount (filter (\<lambda>c. c_assessment_id c = a) cs))
         + (if c_assessment_id credit = a then q - credit_amount credit else 0)"
  using assms
proof (induction cs)
  case Nil
  then show ?case by simp
next
  case (Cons c cs)
  show ?case
  proof (cases "c_id c = cid")
    case True
    with Cons.prems have "credit = c" and "cid \<notin> set (map c_id cs)"
      by auto
    then show ?thesis
      using True by (simp add: map_other_ids)
  next
    case False
    with Cons show ?thesis by simp
  qed
qed

lemma split_writes_conserve:
  assumes "update_credit_amount e m db1 cid (Finite x) = Inr db2"
    and "insert_credit e n db2
           (credit\<lparr>credit_amount := credit_amount credit - x, certificate_id := cert,
              c_status := Available\<rparr>) = Inr db3"
    and "distinct (map c_id (carbon_credits db1))"
    and "find (\<lambda>c. c_id c = cid) (carbon_credits db1) = Some credit"
    and "is_decimal 12 2 x"
  shows "lot_total db3 a = lot_total db1 a"
proof -
  from assms(1,5) have db2: "carbon_credits db2 =
      map (\<lambda>c. if c_id c = cid then c\<lparr>credit_amount := x\<rparr> else c) (carbon_credits db1)"
    by (auto simp: update_credit_amount_def is_decimal_def split: if_splits)
  from assms(2) obtain k where db3: "carbon_credits db3 = carbon_credits db2 @
      [credit\<lparr>credit_amount := credit_amount credit - x, certificate_id := cert,
         c_status := Available, c_id := k\<rparr>]"
    by (auto simp: insert_credit_def split: if_splits)
  show ?thesis
    unfolding lot_total_def db3 db2
    by (simp add: sum_after_amount_update [OF assms(3,4)])
qed


lemma seed_purchase_5000_by_user_2:
  "buy_credit (request_of 2 1700000000) (seed_ledger 1690000000) 1 (POST (Some (Finite 5000)))
   = ((seed_ledger 1690000000)
        \<lparr>transactions := transactions (seed_ledger 1690000000) @
           [\<lparr>t_id = 3, t_credit_id = 1, buyer_id = 2, seller_id = 1, amount = 5000,
             price_per_unit = 25, total_price = 125000, transaction_date = 1700000000,
             t_status = TxCompleted\<rparr>],
         carbon_credits :=
           map (\<lambda>c. if c_id c = 1 then c\<lparr>c_status := Sold\<rparr> else c)
             (carbon_credits (seed_ledger 1690000000))\<rparr>,
      Flash ''Credit purchase successful!'', Redirect ''dashboard'')"
  by code_simp


lemma buy_credit_full:
  assumes "session_user e = Some b" and "fails_at e = None"
    and "select_available_credit db credit_id = Some (c, s)"
    and "price_per_credit c = Some ppc"
    and "float_param 12 2 amt = Inr a"
    and "float_param 10 2 (fl ppc) = Inr p"
    and "float_param 12 2 (fmul amt (fl ppc)) = Inr t"
    and "float_ge_decimal amt (credit_amount c) = Inr True"
  shows "buy_credit e db credit_id (POST (Some amt)) =
           (db\<lparr>transactions := transactions db @
                [\<lparr>t_id = next_id (map t_id (transactions db)), t_credit_id = credit_id,
                  buyer_id = b, seller_id = s, amount = a, price_per_unit = p,
                  total_price = t, transaction_date = now e, t_status = TxCompleted\<rparr>],
              carbon_credits :=
                map (\<lambda>c. if c_id c = credit_id then c\<lparr>c_status := Sold\<rparr> else c)
                  (carbon_credits db)\<rparr>,
            Flash ''Credit purchase successful!'', Redirect ''dashboard'')"
proof -
  have "buy_credit_post e db credit_id c b s (Some amt) = Inr (db
             \<lparr>transactions := transactions db @
                [\<lparr>t_id = next_id (map t_id (transactions db)), t_credit_id = credit_id,
                  buyer_id = b, seller_id = s, amount = a, price_per_unit = p,
                  total_price = t, transaction_date = now e, t_status = TxCompleted\<rparr>],
              carbon_credits :=
                map (\<lambda>c. if c_id c = credit_id then c\<lparr>c_status := Sold\<rparr> else c)
                  (carbon_credits db)\<rparr>)"
    using assms by (intro buy_credit_post_full) (simp_all add: rejected_none)
  then show ?thesis
    using assms by (simp add: buy_credit_def rejected_none)
qed

lemma seed_select_credit_1:
  "select_available_credit (seed_ledger 1690000000) 1 =
     Some (\<lparr>c_id = 1, c_project_id = 1, c_assessment_id = 1, credit_amount = 5000,
            issuance_date = 1690000000, expiry_date = Some (days_from_civil 2028 1 1),
            certificate_id = ''CC-1-abc123'', c_status = Available,
            price_per_credit = Some 25,
            verification_document_url = Some ''/reports/1_20230101.pdf''\<rparr>, 1)"
  by code_simp

text \<open>
  C2, as the specification states it, fails: on the rows that \<^verbatim>\<open>setup_database\<close>
  inserts, user 2 asking for 6000 units of lot 1, which holds 5000, is not refused.
  A third transaction for 6000 units is recorded and the lot is marked sold.
\<close>

theorem purchase_above_quantity_is_not_refused:
  "buy_credit (request_of 2 1700000000) (seed_ledger 1690000000) 1 (POST (Some (Finite 6000)))
   = ((seed_ledger 1690000000)
        \<lparr>transactions := transactions (seed_ledger 1690000000) @
           [\<lparr>t_id = 3, t_credit_id = 1, buyer_id = 2, seller_id = 1, amount = 6000,
             price_per_unit = 25, total_price = 150000, transaction_date = 1700000000,
             t_status = TxCompleted\<rparr>],
         carbon_credits :=
           map (\<lambda>c. if c_id c = 1 then c\<lparr>c_status := Sold\<rparr> else c)
             (carbon_credits (seed_ledger 1690000000))\<rparr>,
      Flash ''Credit purchase successful!'', Redirect ''dashboard'')"
  by code_simp

text \<open>
  C2, amended: a purchase request whose amount is strictly greater than the lot's
  \<^verbatim>\<open>credit_amount\<close> is treated as a purchase of the whole lot.  When no statement is
  rejected and the amount, the unit price and their product fit their columns,
  \<^verbatim>\<open>buy_credit\<close> inserts one completed Transaction for the requested amount and marks
  the lot sold; the lot's quantity is unmodified and no sibling lot is created.
\<close>

theorem purchase_above_quantity_marks_sold:
  assumes "session_user e = Some buyer" and "fails_at e = None"
    and "select_available_credit db credit_id = Some (credit, seller)"
    and "price_per_credit credit = Some ppc"
    and "float_param 12 2 (Finite x) = Inr a"
    and "float_param 10 2 (float_of_decimal ppc) = Inr p"
    and "float_param 12 2 (fmul (Finite x) (float_of_decimal ppc)) = Inr t"
    and "credit_amount credit < x"
  shows "buy_credit e db credit_id (POST (Some (Finite x))) =
           (db\<lparr>transactions := transactions db @
                [\<lparr>t_id = next_id (map t_id (transactions db)), t_credit_id = credit_id,
                  buyer_id = buyer, seller_id = seller, amount = a, price_per_unit = p,
                  total_price = t, transaction_date = now e, t_status = TxCompleted\<rparr>],
              carbon_credits :=
                map (\<lambda>c. if c_id c = credit_id then c\<lparr>c_status := Sold\<rparr> else c)
                  (carbon_credits db)\<rparr>,
            Flash ''Credit purchase successful!'', Redirect ''dashboard'')"
proof -
  have ge: "float_ge_decimal (Finite x) (credit_amount credit) = Inr True"
    using assms(8) by simp
  show ?thesis
    using assms(1-7) ge unfolding float_of_decimal_def by (rule buy_credit_full)
qed

lemma seed_amounts_fit:
  "float_param 12 2 (Finite 6000) = Inr 6000"
  "float_param 12 2 (Finite 5000) = Inr 5000"
  "float_param 10 2 (float_of_decimal 25) = Inr 25"
  "float_param 12 2 (fmul (Finite 6000) (float_of_decimal 25)) = Inr 150000"
  "float_param 12 2 (fmul (Finite 5000) (float_of_decimal 25)) = Inr 125000"
  by code_simp+

theorem purchase_above_quantity_marks_sold_witness:
  "session_user (request_of 2 1700000000) = Some 2
   \<and> fails_at (request_of 2 1700000000) = None
   \<and> map_option (\<lambda>(c, s). (credit_amount c, price_per_credit c, s))
         (select_available_credit (seed_ledger 1690000000) 1) = Some (5000, Some 25, 1)
   \<and> float_param 12 2 (Finite 6000) = Inr 6000
   \<and> float_param 10 2 (float_of_decimal 25) = Inr 25
   \<and> float_param 12 2 (fmul (Finite 6000) (float_of_decimal 25)) = Inr 150000
   \<and> (5000 :: rat) < 6000
   \<and> map c_status (carbon_credits (fst
        (buy_credit (request_of 2 1700000000) (seed_ledger 1690000000) 1
           (POST (Some (Finite 6000)))))) = [Sold, Available]
   \<and> map credit_amount (carbon_credits (fst
        (buy_credit (request_of 2 1700000000) (seed_ledger 1690000000) 1
           (POST (Some (Finite 6000)))))) = [5000, 3000]
   \<and> map amount (transactions (fst
        (buy_credit (request_of 2 1700000000) (seed_ledger 1690000000) 1
           (POST (Some (Finite 6000)))))) = [1000, 500, 6000]"
proof -
  have e1: "session_user (request_of 2 1700000000) = Some 2"
    and e2: "fails_at (request_of 2 1700000000) = None"
    by (simp_all add: request_of_def)
  have lt: "credit_amount \<lparr>c_id = 1, c_project_id = 1, c_assessment_id = 1,
            credit_amount = 5000,
            issuance_date = 1690000000, expiry_date = Some (days_from_civil 2028 1 1),
            certificate_id = ''CC-1-abc123'', c_status = Available,
            price_per_credit = Some 25,
            verification_document_url = Some ''/reports/1_20230101.pdf''\<rparr> < 6000"
    by simp
  have pc: "price_per_credit \<lparr>c_id = 1, c_project_id = 1, c_assessment_id = 1,
            credit_amount = 5000,
            issuance_date = 1690000000, expiry_date = Some (days_from_civil 2028 1 1),
            certificate_id = ''CC-1-abc123'', c_status = Available,
            price_per_credit = Some 25,
            verification_document_url = Some ''/reports/1_20230101.pdf''\<rparr> = Some 25"
    by simp
  note r = purchase_above_quantity_marks_sold
    [OF e1 e2 seed_select_credit_1 pc seed_amounts_fit(1) seed_amounts_fit(3)
      seed_amounts_fit(4) lt]
  show ?thesis
    unfolding r seed_select_credit_1
    by (simp add: request_of_def seed_ledger_def seed_amounts_fit del: float_param.simps)
qed

text \<open>
  C3, as the specification states it, fails: on the rows that \<^verbatim>\<open>setup_database\<close>
  inserts, user 1 owns project 1 and so is the seller of lot 1.  When user 1 buys the
  5000 units of that lot, the purchase goes through, and a transaction with
  \<^verbatim>\<open>buyer_id = seller_id = 1\<close> is recorded.
\<close>

theorem purchase_by_the_seller_is_not_refused:
  "buy_credit (request_of 1 1700000000) (seed_ledger 1690000000) 1 (POST (Some (Finite 5000)))
   = ((seed_ledger 1690000000)
        \<lparr>transactions := transactions (seed_ledger 1690000000) @
           [\<lparr>t_id = 3, t_credit_id = 1, buyer_id = 1, seller_id = 1, amount = 5000,
             price_per_unit = 25, total_price = 125000, transaction_date = 1700000000,
             t_status = TxCompleted\<rparr>],
         carbon_credits :=
           map (\<lambda>c. if c_id c = 1 then c\<lparr>c_status := Sold\<rparr> else c)
             (carbon_credits (seed_ledger 1690000000))\<rparr>,
      Flash ''Credit purchase successful!'', Redirect ''dashboard'')"
  by code_simp

text \<open>
  C3, amended: \<^verbatim>\<open>buy_credit\<close> does not compare the buyer with the seller.  When the
  buyer is the owner of the lot's project and asks for at least the lot's quantity,
  no statement is rejected and the values fit their columns, the purchase is carried
  out: one completed Transaction whose \<^verbatim>\<open>buyer_id\<close> and \<^verbatim>\<open>seller_id\<close> are both that
  user is inserted and the lot is marked sold.
\<close>

theorem purchase_by_the_seller_is_carried_out:
  assumes "session_user e = Some seller" and "fails_at e = None"
    and "select_available_credit db credit_id = Some (credit, seller)"
    and "price_per_credit credit = Some ppc"
    and "float_param 12 2 amt = Inr a"
    and "float_param 10 2 (float_of_decimal ppc) = Inr p"
    and "float_param 12 2 (fmul amt (float_of_decimal ppc)) = Inr t"
    and "float_ge_decimal amt (credit_amount credit) = Inr True"
  shows "buy_credit e db credit_id (POST (Some amt)) =
           (db\<lparr>transactions := transactions db @
                [\<lparr>t_id = next_id (map t_id (transactions db)), t_credit_id = credit_id,
                  buyer_id = seller, seller_id = seller, amount = a, price_per_unit = p,
                  total_price = t, transaction_date = now e, t_status = TxCompleted\<rparr>],
              carbon_credits :=
                map (\<lambda>c. if c_id c = credit_id then c\<lparr>c_status := Sold\<rparr> else c)
                  (carbon_credits db)\<rparr>,
            Flash ''Credit purchase successful!'', Redirect ''dashboard'')"
  using assms unfolding float_of_decimal_def by (rule buy_credit_full)

theorem purchase_by_the_seller_is_carried_out_witness:
  "session_user (request_of 1 1700000000) = Some 1
   \<and> fails_at (request_of 1 1700000000) = None
   \<and> map_option (\<lambda>(c, s). (credit_amount c, price_per_credit c, s))
         (select_available_credit (seed_ledger 1690000000) 1) = Some (5000, Some 25, 1)
   \<and> float_param 12 2 (Finite 5000) = Inr 5000
   \<and> float_param 10 2 (float_of_decimal 25) = Inr 25
   \<and> float_param 12 2 (fmul (Finite 5000) (float_of_decimal 25)) = Inr 125000
   \<and> float_ge_decimal (Finite 5000) 5000 = Inr True
   \<and> map (\<lambda>t. (buyer_id t, seller_id t, t_status t)) (transactions (fst
        (buy_credit (request_of 1 1700000000) (seed_ledger 1690000000) 1
           (POST (Some (Finite 5000))))))
      = [(2, 1, TxCompleted), (1, 2, TxCompleted), (1, 1, TxCompleted)]
   \<and> map c_status (carbon_credits (fst
        (buy_credit (request_of 1 1700000000) (seed_ledger 1690000000) 1
           (POST (Some (Finite 5000)))))) = [Sold, Available]"
proof -
  have e1: "session_user (request_of 1 1700000000) = Some 1"
    and e2: "fails_at (request_of 1 1700000000) = None"
    by (simp_all add: request_of_def)
  have ge: "float_ge_decimal (Finite 5000)
      (credit_amount \<lparr>c_id = 1, c_project_id = 1, c_assessment_id = 1,
            credit_amount = 5000,
            issuance_date = 1690000000, expiry_date = Some (days_from_civil 2028 1 1),
            certificate_id = ''CC-1-abc123'', c_status = Available,
            price_per_credit = Some 25,
            verification_document_url = Some ''/reports/1_20230101.pdf''\<rparr>) = Inr True"
    by simp
  have pc: "price_per_credit \<lparr>c_id = 1, c_project_id = 1, c_assessment_id = 1,
            credit_amount = 5000,
            issuance_date = 1690000000, expiry_date = Some (days_from_civil 2028 1 1),
            certificate_id = ''CC-1-abc123'', c_status = Available,
            price_per_credit = Some 25,
            verification_document_url = Some ''/reports/1_20230101.pdf''\<rparr> = Some 25"
    by simp
  note r = purchase_by_the_seller_is_carried_out
    [OF e1 e2 seed_select_credit_1 pc seed_amounts_fit(2) seed_amounts_fit(3)
      seed_amounts_fit(5) ge]
  show ?thesis
    unfolding r seed_select_credit_1
    by (simp add: request_of_def seed_ledger_def seed_amounts_fit del: float_param.simps)
qed

text \<open>
  C4 does not hold of the code.  A request for less than the lot holds reaches
  \<^verbatim>\<open>new_amount = credit['credit_amount'] - amount\<close>, where the left operand is the
  \<^verbatim>\<open>Decimal\<close> of a \<^verbatim>\<open>DECIMAL(12, 2)\<close> column and the right one the float of
  \<^verbatim>\<open>float(request.form['amount'])\<close>.  The subtraction raises, the handler flashes the
  error, and the connection is closed without a commit: no lot is changed or created
  and no transaction is recorded.
\<close>

theorem partial_purchase_raises:
  assumes "session_user e = Some buyer"
    and "select_available_credit db credit_id = Some (credit, seller)"
    and "x < credit_amount credit"
  shows "\<exists>err. buy_credit e db credit_id (POST (Some (Finite x))) =
           (db, FlashError err, Redirect ''marketplace'')"
proof -
  have "float_ge_decimal (Finite x) (credit_amount credit) = Inr False"
    using assms(3) by simp
  from buy_credit_post_partial [OF this] obtain err
    where "buy_credit_post e db credit_id credit buyer seller (Some (Finite x)) = Inl err"
    by blast
  then show ?thesis
    using assms(1,2) by (simp add: buy_credit_def)
qed

theorem partial_purchase_raises_witness:
  "session_user (request_of 2 1700000000) = Some 2
   \<and> map_option (\<lambda>(c, s). (credit_amount c, price_per_credit c, s))
         (select_available_credit (seed_ledger 1690000000) 1) = Some (5000, Some 25, 1)
   \<and> (1000 :: rat) < 5000
   \<and> buy_credit (request_of 2 1700000000) (seed_ledger 1690000000) 1
        (POST (Some (Finite 1000)))
      = (seed_ledger 1690000000, FlashError TypeError, Redirect ''marketplace'')"
proof -
  have e1: "session_user (request_of 2 1700000000) = Some 2"
    by (simp add: request_of_def)
  have lt: "1000 < credit_amount \<lparr>c_id = 1, c_project_id = 1, c_assessment_id = 1,
            credit_amount = 5000,
            issuance_date = 1690000000, expiry_date = Some (days_from_civil 2028 1 1),
            certificate_id = ''CC-1-abc123'', c_status = Available,
            price_per_credit = Some 25,
            verification_document_url = Some ''/reports/1_20230101.pdf''\<rparr>"
    by simp
  have ev: "buy_credit (request_of 2 1700000000) (seed_ledger 1690000000) 1
        (POST (Some (Finite 1000)))
      = (seed_ledger 1690000000, FlashError TypeError, Redirect ''marketplace'')"
    by code_simp
  from partial_purchase_raises [OF e1 seed_select_credit_1 lt] ev
  show ?thesis
    unfolding seed_select_credit_1
    by (simp add: request_of_def)
qed

text \<open>
  C8, as the specification states it, fails: the handler converts both factors with
  \<^verbatim>\<open>float\<close> and multiplies floats.  For an amount typed as 1.1 and a unit price of
  25.00 the product it computes is \<open>27.500000000000003552713678800500929355621337890625\<close>,
  which is neither \<open>1.1 \<times> 25 = 27.5\<close> nor the exact product of the float amount and
  the price.
\<close>

theorem total_price_is_not_exact:
  "fl (11 / 10) = Finite (2476979795053773 / 2251799813685248)
   \<and> float_of_nullable (Some 25) = Inr (Finite 25)
   \<and> fmul (Finite (2476979795053773 / 2251799813685248)) (Finite 25)
       = Finite (7740561859543041 / 281474976710656)
   \<and> (7740561859543041 / 281474976710656 :: rat) \<noteq> (11 / 10) * 25
   \<and> (7740561859543041 / 281474976710656 :: rat)
       \<noteq> (2476979795053773 / 2251799813685248) * 25"
  by code_simp

text \<open>
  C8, amended: for every purchase that completes, \<^verbatim>\<open>total_price\<close> is computed in
  binary floating point as \<^verbatim>\<open>float(amount) * float(price_per_credit)\<close>, the product
  rounded to the nearest float, and the Transaction row holds that float rounded to
  the two decimals of its column; the amount and the unit price are stored the same
  way.
\<close>

theorem total_price_is_a_float_product:
  assumes "buy_credit e db credit_id (POST (Some amt)) =
             (db', Flash ''Credit purchase successful!'', r)"
    and "select_available_credit db credit_id = Some (credit, seller)"
  shows "\<exists>ppc row. price_per_credit credit = Some ppc
           \<and> transactions db' = transactions db @ [row]
           \<and> Inr (total_price row) = float_param 12 2 (fmul amt (float_of_decimal ppc))
           \<and> Inr (amount row) = float_param 12 2 amt
           \<and> Inr (price_per_unit row) = float_param 10 2 (float_of_decimal ppc)"
proof -
  from buy_credit_success [OF assms(1)] assms(2) obtain b
    where "buy_credit_post e db credit_id credit b seller (Some amt) = Inr db'"
    by auto
  from buy_credit_post_Inr [OF this] show ?thesis
    by (auto simp: float_of_decimal_def)
qed

theorem total_price_is_a_float_product_witness:
  "map_option (\<lambda>(c, s). (credit_amount c, price_per_credit c, s))
         (select_available_credit (seed_ledger 1690000000) 1) = Some (5000, Some 25, 1)
   \<and> snd (buy_credit (request_of 2 1700000000) (seed_ledger 1690000000) 1
          (POST (Some (Finite 5000))))
     = (Flash ''Credit purchase successful!'', Redirect ''dashboard'')
   \<and> map total_price (transactions (fst
        (buy_credit (request_of 2 1700000000) (seed_ledger 1690000000) 1
          (POST (Some (Finite 5000)))))) = [25000, 15000, 125000]
   \<and> float_param 12 2 (fmul (Finite 5000) (float_of_decimal 25)) = Inr 125000"
proof -
  from total_price_is_a_float_product
    [OF seed_purchase_5000_by_user_2 seed_select_credit_1] seed_amounts_fit(5)
  show ?thesis
    unfolding seed_purchase_5000_by_user_2 seed_select_credit_1
    by (simp add: seed_ledger_def)
qed

section \<open>Issuing credits\<close>

lemma generate_report_success:
  assumes "generate_report e db project_id =
             (db', Flash ''Verification report generated and carbon credits issued!'', r)"
  shows "\<exists>user p a. session_user e = Some user
           \<and> select_project_with_assessment db project_id user = Some (p, a)
           \<and> generate_report_body e db project_id p a = Inr db'"
  using assms unfolding generate_report_def
  by (auto split: option.splits if_splits prod.splits sum.splits)

lemma generate_report_body_Inr:
  assumes "generate_report_body e db project_id p a = Inr db'"
  shows "\<exists>q. float_param 12 2 (float_of_decimal (carbon_estimate a)) = Inr q
         \<and> db' = db
             \<lparr>carbon_assessments :=
                map (\<lambda>a. if a_id a = p_id p
                          then a\<lparr>report_url := Some (new_report_url e project_id),
                                 a_verification_status := Approved\<rparr>
                          else a)
                  (carbon_assessments db),
              projects :=
                map (\<lambda>p. if p_id p = project_id then p\<lparr>p_status := Verified\<rparr> else p)
                  (projects db),
              carbon_credits := carbon_credits db @
               [\<lparr>c_id = next_id (map c_id (carbon_credits db)), c_project_id = project_id,
                 c_assessment_id = p_id p, credit_amount = q, issuance_date = now e,
                 expiry_date = Some (today e + 365 * 5),
                 certificate_id = new_certificate_id e project_id, c_status = Available,
                 price_per_credit = Some 25,
                 verification_document_url = Some (new_report_url e project_id)\<rparr>]\<rparr>"
proof (cases "float_param 12 2 (float_of_decimal (carbon_estimate a))")
  case (Inl err)
  with assms show ?thesis
    by (simp add: generate_report_body_def update_assessment_report_def
        update_project_status_def Let_def split: if_splits)
next
  case (Inr q)
  with assms show ?thesis
    by (simp add: generate_report_body_def update_assessment_report_def
        update_project_status_def insert_credit_def Let_def split: if_splits)
qed

lemma project_status_of_update:
  assumes "find (\<lambda>p. p_id p = project_id \<and> Q p) ps = Some p"
  shows "map_option p_status (find (\<lambda>p. p_id p = project_id)
           (map (\<lambda>p. if p_id p = project_id then p\<lparr>p_status := st\<rparr> else p) ps)) = Some st"
  using assms by (induction ps) (auto split: if_splits)

lemma select_project_with_assessment_find:
  assumes "select_project_with_assessment db project_id user = Some (p, a)"
  shows "find (\<lambda>p. p_id p = project_id \<and> p_user_id p = user) (projects db) = Some p"
  using assms
  by (auto simp: select_project_with_assessment_def split: option.splits)

lemma generate_report_verified:
  assumes "generate_report e db project_id =
             (db', Flash ''Verification report generated and carbon credits issued!'', r)"
  shows "project_status_of db' project_id = Some Verified"
proof -
  from generate_report_success [OF assms] obtain user p a
    where sel: "select_project_with_assessment db project_id user = Some (p, a)"
      and body: "generate_report_body e db project_id p a = Inr db'"
    by blast
  from generate_report_body_Inr [OF body] obtain q where "db' = db
             \<lparr>carbon_assessments :=
                map (\<lambda>a. if a_id a = p_id p
                          then a\<lparr>report_url := Some (new_report_url e project_id),
                                 a_verification_status := Approved\<rparr>
                          else a)
                  (carbon_assessments db),
              projects :=
                map (\<lambda>p. if p_id p = project_id then p\<lparr>p_status := Verified\<rparr> else p)
                  (projects db),
              carbon_credits := carbon_credits db @
               [\<lparr>c_id = next_id (map c_id (carbon_credits db)), c_project_id = project_id,
                 c_assessment_id = p_id p, credit_amount = q, issuance_date = now e,
                 expiry_date = Some (today e + 365 * 5),
                 certificate_id = new_certificate_id e project_id, c_status = Available,
                 price_per_credit = Some 25,
                 verification_document_url = Some (new_report_url e project_id)\<rparr>]\<rparr>"
    by blast
  then have
    "projects db' =
       map (\<lambda>p. if p_id p = project_id then p\<lparr>p_status := Verified\<rparr> else p) (projects db)"
    by simp
  then show ?thesis
    using project_status_of_update [OF select_project_with_assessment_find [OF sel]]
    by (simp add: project_status_of_def)
qed

lemma select_project_with_assessment_id:
  assumes "select_project_with_assessment db project_id user = Some (p, a)"
  shows "p_id p = project_id"
proof -
  from select_project_with_assessment_find [OF assms]
  have "find (\<lambda>p. p_id p = project_id \<and> p_user_id p = user) (projects db) = Some p" .
  then show ?thesis
    by (induction "projects db" arbitrary: db) (auto simp: find_Some_iff)
qed

text \<open>
  C7 does not hold of the code.  \<^verbatim>\<open>generate_report\<close> takes the quantity of the new
  lot from the latest assessment of the project, but it writes
  \<^verbatim>\<open>project_data['id']\<close>, which is the project's id, as the lot's
  \<^verbatim>\<open>assessment_id\<close>, and it approves and attaches the report to the assessment with
  that id.  So the lot is filed under assessment number \<open>project_id\<close>, whichever
  assessment its quantity comes from.  The expiry date is the issuance date plus
  \<open>365 \<times> 5\<close> days, which is short of five years by the leap days in between.
  The status of the lot and of the project are as the claim says.
\<close>

theorem issued_lot_is_filed_under_the_project_id:
  assumes "generate_report e db project_id =
             (db', Flash ''Verification report generated and carbon credits issued!'', r)"
    and "session_user e = Some user"
    and "select_project_with_assessment db project_id user = Some (p, a)"
    and "is_decimal 12 2 (carbon_estimate a)"
  shows "\<exists>lot. carbon_credits db' = carbon_credits db @ [lot]
           \<and> c_project_id lot = project_id
           \<and> c_assessment_id lot = project_id
           \<and> credit_amount lot = carbon_estimate a
           \<and> issuance_date lot = now e
           \<and> expiry_date lot = Some (issuance_date lot div 86400 + 1825)
           \<and> c_status lot = Available
           \<and> carbon_assessments db' =
               map (\<lambda>b. if a_id b = project_id
                         then b\<lparr>report_url := Some (new_report_url e project_id),
                                a_verification_status := Approved\<rparr>
                         else b)
                 (carbon_assessments db)
           \<and> project_status_of db' project_id = Some Verified"
proof -
  from generate_report_success [OF assms(1)] assms(2,3)
  have body: "generate_report_body e db project_id p a = Inr db'"
    by auto
  have pid: "p_id p = project_id"
    by (rule select_project_with_assessment_id [OF assms(3)])
  from generate_report_body_Inr [OF body] obtain q
    where q: "float_param 12 2 (float_of_decimal (carbon_estimate a)) = Inr q"
      and db': "db' = db
             \<lparr>carbon_assessments :=
                map (\<lambda>a. if a_id a = p_id p
                          then a\<lparr>report_url := Some (new_report_url e project_id),
                                 a_verification_status := Approved\<rparr>
                          else a)
                  (carbon_assessments db),
              projects :=
                map (\<lambda>p. if p_id p = project_id then p\<lparr>p_status := Verified\<rparr> else p)
                  (projects db),
              carbon_credits := carbon_credits db @
               [\<lparr>c_id = next_id (map c_id (carbon_credits db)), c_project_id = project_id,
                 c_assessment_id = p_id p, credit_amount = q, issuance_date = now e,
                 expiry_date = Some (today e + 365 * 5),
                 certificate_id = new_certificate_id e project_id, c_status = Available,
                 price_per_credit = Some 25,
                 verification_document_url = Some (new_report_url e project_id)\<rparr>]\<rparr>"
    by blast
  from q decimal_round_trip [OF assms(4)] have "q = carbon_estimate a"
    by simp
  with db' pid generate_report_verified [OF assms(1)] show ?thesis
    by (simp add: today_def)
qed

lemma seed_generate_report:
  "generate_report (request_of 1 1793707200) (seed_ledger 1690000000) 1
   = ((seed_ledger 1690000000)
        \<lparr>carbon_assessments :=
           map (\<lambda>a. if a_id a = 1
                     then a\<lparr>report_url := Some ''/reports/1_20261103.pdf'',
                            a_verification_status := Approved\<rparr>
                     else a)
             (carbon_assessments (seed_ledger 1690000000)),
         projects :=
           map (\<lambda>p. if p_id p = 1 then p\<lparr>p_status := Verified\<rparr> else p)
             (projects (seed_ledger 1690000000)),
         carbon_credits := carbon_credits (seed_ledger 1690000000) @
           [\<lparr>c_id = 3, c_project_id = 1, c_assessment_id = 1, credit_amount = 5000,
             issuance_date = 1793707200, expiry_date = Some 22585,
             certificate_id = ''CC-1-9f3a61c2'', c_status = Available,
             price_per_credit = Some 25,
             verification_document_url = Some ''/reports/1_20261103.pdf''\<rparr>]\<rparr>,
      Flash ''Verification report generated and carbon credits issued!'',
      Redirect ''project_details'')"
  by code_simp

lemma reassessed_assessments:
  "carbon_assessments reassessed_ledger
   = [\<lparr>a_id = 1, a_project_id = 1, assessment_date = 1690000000, carbon_estimate = 5000,
        ai_model_version = ''gpt-4'', a_verification_status = Approved, report_url = None\<rparr>,
      \<lparr>a_id = 2, a_project_id = 2, assessment_date = 1690000000, carbon_estimate = 3000,
        ai_model_version = ''gpt-4'', a_verification_status = Approved, report_url = None\<rparr>,
      \<lparr>a_id = 3, a_project_id = 2, assessment_date = 1793620800, carbon_estimate = 240,
        ai_model_version = ''fallback'', a_verification_status = Pending,
        report_url = None\<rparr>]"
  by code_simp

lemma reassessed_credits:
  "carbon_credits reassessed_ledger = carbon_credits (seed_ledger 1690000000)"
  by code_simp

lemma reassessed_select_project_2:
  "select_project_with_assessment reassessed_ledger 2 2
   = Some (\<lparr>p_id = 2, p_user_id = 2, p_project_type = ''wetland'', p_area_size = 50,
             p_area_unit = ''acres'', p_status = Assessing\<rparr>,
           \<lparr>a_id = 3, a_project_id = 2, assessment_date = 1793620800,
             carbon_estimate = 240, ai_model_version = ''fallback'',
             a_verification_status = Pending, report_url = None\<rparr>)"
  by code_simp

lemma reassessed_generate_report:
  "generate_report (request_of 2 1793707200) reassessed_ledger 2
   = (reassessed_ledger
        \<lparr>carbon_assessments :=
           map (\<lambda>a. if a_id a = 2
                     then a\<lparr>report_url := Some ''/reports/2_20261103.pdf'',
                            a_verification_status := Approved\<rparr>
                     else a)
             (carbon_assessments reassessed_ledger),
         projects :=
           map (\<lambda>p. if p_id p = 2 then p\<lparr>p_status := Verified\<rparr> else p)
             (projects reassessed_ledger),
         carbon_credits := carbon_credits reassessed_ledger @
           [\<lparr>c_id = 3, c_project_id = 2, c_assessment_id = 2, credit_amount = 240,
             issuance_date = 1793707200, expiry_date = Some 22585,
             certificate_id = ''CC-2-9f3a61c2'', c_status = Available,
             price_per_credit = Some 25,
             verification_document_url = Some ''/reports/2_20261103.pdf''\<rparr>]\<rparr>,
      Flash ''Verification report generated and carbon credits issued!'',
      Redirect ''project_details'')"
  by code_simp

lemma five_years_after_2026_11_03:
  "civil_from_days (1793707200 div 86400) = (2026, 11, 3)
   \<and> civil_from_days (1793707200 div 86400 + 1825) = (2031, 11, 2)
   \<and> civil_from_days (add_years 5 (1793707200 div 86400)) = (2031, 11, 3)"
  by code_simp

text \<open>
  The owner of project 2 generates the report on 2026-11-03, the day after the
  assessment page gave the project its assessment number 3 of 240.  The new lot holds
  240, the estimate of assessment 3, and names assessment 2, whose estimate is 3000;
  assessment 2 receives the report and assessment 3 stays pending.  The lot expires on
  2031-11-02, a day before five years have passed.
\<close>

theorem issued_lot_is_filed_under_the_project_id_witness:
  "session_user (request_of 2 1793707200) = Some 2
   \<and> snd (generate_report (request_of 2 1793707200) reassessed_ledger 2)
       = (Flash ''Verification report generated and carbon credits issued!'',
          Redirect ''project_details'')
   \<and> map_option (\<lambda>(p, a). (p_id p, a_id a, a_project_id a, carbon_estimate a))
         (select_project_with_assessment reassessed_ledger 2 2) = Some (2, 3, 2, 240)
   \<and> is_decimal 12 2 240
   \<and> map (\<lambda>a. (a_id a, a_project_id a, carbon_estimate a, a_verification_status a,
                report_url a))
       (carbon_assessments reassessed_ledger)
      = [(1, 1, 5000, Approved, None), (2, 2, 3000, Approved, None),
         (3, 2, 240, Pending, None)]
   \<and> map (\<lambda>c. (c_project_id c, c_assessment_id c, credit_amount c, issuance_date c,
                expiry_date c, c_status c))
       (carbon_credits (fst (generate_report (request_of 2 1793707200) reassessed_ledger 2)))
      = [(1, 1, 5000, 1690000000, Some (days_from_civil 2028 1 1), Available),
         (2, 2, 3000, 1690000000, Some (days_from_civil 2028 2 1), Available),
         (2, 2, 240, 1793707200, Some (1793707200 div 86400 + 1825), Available)]
   \<and> map (\<lambda>a. (a_id a, a_project_id a, carbon_estimate a, a_verification_status a,
                report_url a))
       (carbon_assessments
          (fst (generate_report (request_of 2 1793707200) reassessed_ledger 2)))
      = [(1, 1, 5000, Approved, None),
         (2, 2, 3000, Approved, Some ''/reports/2_20261103.pdf''),
         (3, 2, 240, Pending, None)]
   \<and> project_status_of
       (fst (generate_report (request_of 2 1793707200) reassessed_ledger 2)) 2
      = Some Verified
   \<and> civil_from_days (1793707200 div 86400) = (2026, 11, 3)
   \<and> civil_from_days (1793707200 div 86400 + 1825) = (2031, 11, 2)
   \<and> civil_from_days (add_years 5 (1793707200 div 86400)) = (2031, 11, 3)"
proof -
  have e2: "session_user (request_of 2 1793707200) = Some 2"
    by (simp add: request_of_def)
  have dec: "is_decimal 12 2 (carbon_estimate
           \<lparr>a_id = 3, a_project_id = 2, assessment_date = 1793620800,
             carbon_estimate = 240, ai_model_version = ''fallback'',
             a_verification_status = Pending, report_url = None\<rparr>)"
    by code_simp
  then have dec': "is_decimal 12 2 240"
    by simp
  have ok: "snd (generate_report (request_of 2 1793707200) reassessed_ledger 2)
       = (Flash ''Verification report generated and carbon credits issued!'',
          Redirect ''project_details'')"
    unfolding reassessed_generate_report by simp
  have sel: "map_option (\<lambda>(p, a). (p_id p, a_id a, a_project_id a, carbon_estimate a))
         (select_project_with_assessment reassessed_ledger 2 2) = Some (2, 3, 2, 240)"
    unfolding reassessed_select_project_2 by simp
  have before: "map (\<lambda>a. (a_id a, a_project_id a, carbon_estimate a, a_verification_status a,
                report_url a))
       (carbon_assessments reassessed_ledger)
      = [(1, 1, 5000, Approved, None), (2, 2, 3000, Approved, None),
         (3, 2, 240, Pending, None)]"
    unfolding reassessed_assessments by simp
  have lots: "map (\<lambda>c. (c_project_id c, c_assessment_id c, credit_amount c, issuance_date c,
                expiry_date c, c_status c))
       (carbon_credits (fst (generate_report (request_of 2 1793707200) reassessed_ledger 2)))
      = [(1, 1, 5000, 1690000000, Some (days_from_civil 2028 1 1), Available),
         (2, 2, 3000, 1690000000, Some (days_from_civil 2028 2 1), Available),
         (2, 2, 240, 1793707200, Some (1793707200 div 86400 + 1825), Available)]"
    unfolding reassessed_generate_report reassessed_credits
    by (simp add: seed_ledger_def)
  have after: "map (\<lambda>a. (a_id a, a_project_id a, carbon_estimate a, a_verification_status a,
                report_url a))
       (carbon_assessments
          (fst (generate_report (request_of 2 1793707200) reassessed_ledger 2)))
      = [(1, 1, 5000, Approved, None),
         (2, 2, 3000, Approved, Some ''/reports/2_20261103.pdf''),
         (3, 2, 240, Pending, None)]"
    unfolding reassessed_generate_report reassessed_assessments by simp
  have verified: "project_status_of
       (fst (generate_report (request_of 2 1793707200) reassessed_ledger 2)) 2
      = Some Verified"
    using issued_lot_is_filed_under_the_project_id
      [OF reassessed_generate_report e2 reassessed_select_project_2 dec]
    unfolding reassessed_generate_report fst_conv
    by (elim exE conjE)
  show ?thesis
    using five_years_after_2026_11_03
    by (intro conjI e2 ok sel dec' before lots after verified) simp_all
qed
section \<open>The assessment pipeline\<close>

lemma appended_rows_same: "appended_rows xs xs = Some 0"
  by (simp add: appended_rows_def)

lemma appended_rows_one: "appended_rows xs (xs @ [x]) = Some 1"
  by (simp add: appended_rows_def)

lemma insert_satellite_data_Inr:
  assumes "insert_satellite_data e n db project_id = Inr db1"
  shows "projects db1 = projects db
       \<and> pipeline_rows db0 db1 =
           (appended_rows (satellite_data db0) (satellite_data db @
              [\<lparr>s_id = next_id (map s_id (satellite_data db)), s_project_id = project_id,
                capture_date = today e\<rparr>]),
            appended_rows (carbon_assessments db0) (carbon_assessments db),
            appended_rows (ai_verification_logs db0) (ai_verification_logs db))"
  using assms
  by (cases "rejected e n") (auto simp: insert_satellite_data_def pipeline_rows_def)

lemma insert_assessment_Inr:
  assumes "insert_assessment e n db project_id result = Inr db1"
  shows "\<exists>row. projects db1 = projects db
       \<and> satellite_data db1 = satellite_data db
       \<and> carbon_assessments db1 = carbon_assessments db @ [row]
       \<and> ai_verification_logs db1 = ai_verification_logs db"
  using assms
  by (cases "rejected e n"; cases "float_param 12 2 (get_carbon_estimate result)")
    (auto simp: insert_assessment_def)

lemma insert_verification_log_Inr:
  assumes "insert_verification_log e n db project_id assessment_id result = Inr db1"
  shows "\<exists>row. projects db1 = projects db
       \<and> satellite_data db1 = satellite_data db
       \<and> carbon_assessments db1 = carbon_assessments db
       \<and> ai_verification_logs db1 = ai_verification_logs db @ [row]"
  using assms
  by (cases "rejected e n") (auto simp: insert_verification_log_def)

lemma record_assessment_rows:
  assumes "record_assessment e db project_id pd = (db', err)"
  shows "projects db' = projects db
       \<and> (err = None \<and> pipeline_rows db db' = (Some 1, Some 1, Some 1)
          \<or> err \<noteq> None \<and> pipeline_rows db db' = (Some 0, Some 0, Some 0)
          \<or> err \<noteq> None \<and> pipeline_rows db db' = (Some 1, Some 0, Some 0)
          \<or> err \<noteq> None \<and> pipeline_rows db db' = (Some 1, Some 1, Some 0))"
proof (cases "insert_satellite_data e 3 db project_id")
  case (Inl x)
  with assms show ?thesis
    by (auto simp: record_assessment_def pipeline_rows_def appended_rows_same)
next
  case sat: (Inr db1)
  from insert_satellite_data_Inr [OF sat, of db]
  have p1: "projects db1 = projects db"
    and r1: "pipeline_rows db db1 = (Some 1, Some 0, Some 0)"
    by (simp_all add: appended_rows_one appended_rows_same)
  define result where "result = analyze_project (float_of_str e) (ai_call e) pd"
  show ?thesis
  proof (cases "insert_assessment e 4 db1 project_id result")
    case (Inl x)
    with assms sat p1 r1 show ?thesis
      by (auto simp: record_assessment_def Let_def result_def)
  next
    case ass: (Inr db2)
    from insert_assessment_Inr [OF ass] obtain row
      where t2: "projects db2 = projects db1" "satellite_data db2 = satellite_data db1"
        "carbon_assessments db2 = carbon_assessments db1 @ [row]"
        "ai_verification_logs db2 = ai_verification_logs db1"
      by blast
    from r1 have r1': "appended_rows (satellite_data db) (satellite_data db1) = Some 1"
      "appended_rows (carbon_assessments db) (carbon_assessments db1) = Some 0"
      "appended_rows (ai_verification_logs db) (ai_verification_logs db1) = Some 0"
      by (simp_all add: pipeline_rows_def)
    have c2: "appended_rows (carbon_assessments db) (carbon_assessments db1 @ [row]) = Some 1"
      using r1'(2) by (auto simp: appended_rows_def split: if_splits)
    have r2: "pipeline_rows db db2 = (Some 1, Some 1, Some 0)"
      using r1' c2 by (simp add: pipeline_rows_def t2)
    show ?thesis
    proof (cases "rejected e 5")
      case True
      with assms sat ass p1 t2 r2 show ?thesis
        by (auto simp: record_assessment_def Let_def result_def)
    next
      case r5: False
      show ?thesis
      proof (cases "insert_verification_log e 6 db2 project_id
                      (next_id (map a_id (carbon_assessments db1))) result")
        case (Inl x)
        with assms sat ass r5 p1 t2 r2 show ?thesis
          by (auto simp: record_assessment_def Let_def result_def)
      next
        case lg: (Inr db3)
        from insert_verification_log_Inr [OF lg] obtain lrow
          where t3: "projects db3 = projects db2" "satellite_data db3 = satellite_data db2"
            "carbon_assessments db3 = carbon_assessments db2"
            "ai_verification_logs db3 = ai_verification_logs db2 @ [lrow]"
          by blast
        have l3: "appended_rows (ai_verification_logs db)
                    (ai_verification_logs db1 @ [lrow]) = Some 1"
          using r1'(3) by (auto simp: appended_rows_def split: if_splits)
        have r3: "pipeline_rows db db3 = (Some 1, Some 1, Some 1)"
          using r1' c2 l3 by (simp add: pipeline_rows_def t2 t3)
        from assms sat ass r5 lg have "db' = db3" "err = None"
          by (simp_all add: record_assessment_def Let_def result_def)
        with p1 t2 t3 r3 show ?thesis by simp
      qed
    qed
  qed
qed

lemma insert_project_Inr:
  assumes "insert_project e n db user form = Inr db1"
  shows "satellite_data db1 = satellite_data db
       \<and> carbon_assessments db1 = carbon_assessments db
       \<and> ai_verification_logs db1 = ai_verification_logs db"
proof (cases "f_area_size form")
  case None
  with assms show ?thesis
    by (simp add: insert_project_def split: if_splits)
next
  case (Some x)
  with assms show ?thesis
    by (cases "decimal_column 10 2 x") (auto simp: insert_project_def split: if_splits)
qed

lemma pipeline_rows_cong:
  assumes "satellite_data db1 = satellite_data db"
    and "carbon_assessments db1 = carbon_assessments db"
    and "ai_verification_logs db1 = ai_verification_logs db"
  shows "pipeline_rows db1 x = pipeline_rows db x" and "pipeline_rows x db1 = pipeline_rows x db"
  using assms by (simp_all add: pipeline_rows_def)

lemma update_project_status_Inr:
  assumes "update_project_status e n db project_id st = Inr db1"
  shows "satellite_data db1 = satellite_data db
       \<and> carbon_assessments db1 = carbon_assessments db
       \<and> ai_verification_logs db1 = ai_verification_logs db"
  using assms
  by (cases "rejected e n") (auto simp: update_project_status_def)

lemma register_project_post_rows:
  assumes "register_project_post e db user form = (db', err)"
  shows "err = None \<and> pipeline_rows db db' = (Some 1, Some 1, Some 1)
       \<or> err \<noteq> None \<and> pipeline_rows db db' \<in>
            {(Some 0, Some 0, Some 0), (Some 1, Some 0, Some 0), (Some 1, Some 1, Some 0),
             (Some 1, Some 1, Some 1)}"
proof (cases "insert_project e 1 db user form")
  case (Inl x)
  with assms have "db' = db" "err = Some x"
    by (simp_all add: register_project_post_def)
  then show ?thesis
    by (simp add: pipeline_rows_def appended_rows_same)
next
  case ip: (Inr db1)
  note same = insert_project_Inr [OF ip]
  have same1: "pipeline_rows db1 x = pipeline_rows db x" for x
    using same by (intro pipeline_rows_cong) simp_all
  have same2: "pipeline_rows x db1 = pipeline_rows x db" for x
    using same by (intro pipeline_rows_cong) simp_all
  show ?thesis
  proof (cases "rejected e 2")
    case True
    with assms ip have "db' = db1" "err = Some DatabaseError"
      by (simp_all add: register_project_post_def)
    then show ?thesis
      by (simp add: same2) (simp add: pipeline_rows_def appended_rows_same)
  next
    case r2: False
    define pd where "pd = \<lparr>project_type = f_project_type form,
          area_size = (case f_area_size form of Some x \<Rightarrow> fl x | None \<Rightarrow> NaN),
          area_unit = f_area_unit form\<rparr>"
    define pid where "pid = next_id (map p_id (projects db))"
    obtain db2 err2 where ra: "record_assessment e db1 pid pd = (db2, err2)"
      by (cases "record_assessment e db1 pid pd")
    from record_assessment_rows [OF ra] have rows:
      "err2 = None \<and> pipeline_rows db db2 = (Some 1, Some 1, Some 1)
          \<or> err2 \<noteq> None \<and> pipeline_rows db db2 = (Some 0, Some 0, Some 0)
          \<or> err2 \<noteq> None \<and> pipeline_rows db db2 = (Some 1, Some 0, Some 0)
          \<or> err2 \<noteq> None \<and> pipeline_rows db db2 = (Some 1, Some 1, Some 0)"
      by (simp add: same1)
    have unfold: "register_project_post e db user form =
        (case (db2, err2) of
           (db2, Some err) \<Rightarrow> (db2, Some err)
         | (db2, None) \<Rightarrow>
             (case update_project_status e 7 db2 pid Assessing of
                Inl err \<Rightarrow> (db2, Some err)
              | Inr db3 \<Rightarrow> (db3, None)))"
      using ip r2 ra
      by (simp add: register_project_post_def Let_def pd_def [symmetric] pid_def [symmetric])
    show ?thesis
    proof (cases err2)
      case (Some x)
      with assms unfold have "db' = db2" "err = Some x" by simp_all
      with rows Some show ?thesis by auto
    next
      case None
      with rows have r3: "pipeline_rows db db2 = (Some 1, Some 1, Some 1)" by simp
      show ?thesis
      proof (cases "update_project_status e 7 db2 pid Assessing")
        case (Inl x)
        with assms unfold None have "db' = db2" "err = Some x" by simp_all
        with r3 show ?thesis by simp
      next
        case up: (Inr db3)
        with assms unfold None have "db' = db3" "err = None" by simp_all
        moreover have "pipeline_rows db db3 = pipeline_rows db db2"
          using update_project_status_Inr [OF up] by (intro pipeline_rows_cong) simp_all
        ultimately show ?thesis using r3 by simp
      qed
    qed
  qed
qed

text \<open>
  C6, as the specification states it, fails: the write sequence is not atomic.  When
  the server rejects the insert into \<^verbatim>\<open>carbon_assessments\<close> (the fourth statement of
  \<^verbatim>\<open>register_project\<close>), the project and the satellite observation are already
  committed and stay in the ledger, with no assessment and no verification log.
\<close>

theorem registration_leaves_partial_rows:
  "pipeline_rows (seed_ledger 1690000000)
     (fst (register_project ((request_of 1 1793707200)\<lparr>fails_at := Some 4\<rparr>)
        (seed_ledger 1690000000)
        (POST \<lparr>f_project_type = ''forestry'', f_area_size = Some 100,
               f_area_unit = ''hectares''\<rparr>)))
   = (Some 1, Some 0, Some 0)
   \<and> snd (register_project ((request_of 1 1793707200)\<lparr>fails_at := Some 4\<rparr>)
        (seed_ledger 1690000000)
        (POST \<lparr>f_project_type = ''forestry'', f_area_size = Some 100,
               f_area_unit = ''hectares''\<rparr>))
     = (FlashError DatabaseError, Render ''register_project.html'')"
  by code_simp

text \<open>
  C6, amended: an invocation of the pipeline of \<^verbatim>\<open>register_project\<close> that runs to
  its end appends exactly one Satellite Observation row, exactly one Assessment row
  and exactly one Verification Log row.  Each insert is committed on its own, so the
  sequence is not atomic: when a step fails, the rows committed before it stay, and
  the ledger then shows none of the three rows, the observation alone, the
  observation with the assessment, or all three.
\<close>

theorem registration_appends_a_prefix:
  assumes "register_project e db (POST form) = (db', f, r)"
  shows "r = Redirect ''project_assessment'' \<and> pipeline_rows db db' = (Some 1, Some 1, Some 1)
       \<or> r \<noteq> Redirect ''project_assessment''
          \<and> pipeline_rows db db' \<in>
              {(Some 0, Some 0, Some 0), (Some 1, Some 0, Some 0), (Some 1, Some 1, Some 0),
               (Some 1, Some 1, Some 1)}"
proof (cases "session_user e")
  case None
  with assms have "db' = db" "r = Redirect ''login''"
    by (simp_all add: register_project_def)
  then show ?thesis
    by (simp add: pipeline_rows_def appended_rows_same)
next
  case (Some user)
  obtain db1 err where post: "register_project_post e db user form = (db1, err)"
    by (cases "register_project_post e db user form")
  show ?thesis
  proof (cases err)
    case None
    with assms Some post have "db' = db1" "r = Redirect ''project_assessment''"
      by (simp_all add: register_project_def)
    with register_project_post_rows [OF post] None show ?thesis by simp
  next
    case err: (Some x)
    with assms Some post have "db' = db1" "r = Render ''register_project.html''"
      by (simp_all add: register_project_def)
    with register_project_post_rows [OF post] err show ?thesis by simp
  qed
qed

theorem registration_appends_a_prefix_witness:
  "snd (register_project (request_of 1 1793707200) (seed_ledger 1690000000)
        (POST \<lparr>f_project_type = ''forestry'', f_area_size = Some 100,
               f_area_unit = ''hectares''\<rparr>))
     = (Flash ''Project registered successfully!'', Redirect ''project_assessment'')
   \<and> pipeline_rows (seed_ledger 1690000000)
       (fst (register_project (request_of 1 1793707200) (seed_ledger 1690000000)
        (POST \<lparr>f_project_type = ''forestry'', f_area_size = Some 100,
               f_area_unit = ''hectares''\<rparr>)))
     = (Some 1, Some 1, Some 1)"
proof -
  have s: "snd (register_project (request_of 1 1793707200) (seed_ledger 1690000000)
        (POST \<lparr>f_project_type = ''forestry'', f_area_size = Some 100,
               f_area_unit = ''hectares''\<rparr>))
     = (Flash ''Project registered successfully!'', Redirect ''project_assessment'')"
    by code_simp
  have "register_project (request_of 1 1793707200) (seed_ledger 1690000000)
        (POST \<lparr>f_project_type = ''forestry'', f_area_size = Some 100,
               f_area_unit = ''hectares''\<rparr>)
     = (fst (register_project (request_of 1 1793707200) (seed_ledger 1690000000)
        (POST \<lparr>f_project_type = ''forestry'', f_area_size = Some 100,
               f_area_unit = ''hectares''\<rparr>)),
        Flash ''Project registered successfully!'', Redirect ''project_assessment'')"
    using s by (metis prod.collapse)
  from registration_appends_a_prefix [OF this] s show ?thesis
    by simp
qed

section \<open>The status of a project\<close>

lemma project_assessment_status:
  assumes "session_user e = Some user"
    and "find (\<lambda>p. p_id p = project_id \<and> p_user_id p = user) (projects db) = Some p"
    and "\<not> rejected e 1" and "\<not> rejected e 2"
  shows "project_status_of (fst (project_assessment e db project_id)) project_id
           = Some Assessing"
proof -
  define db1 where "db1 = db\<lparr>projects :=
      map (\<lambda>p. if p_id p = project_id then p\<lparr>p_status := Assessing\<rparr> else p) (projects db)\<rparr>"
  define pd where "pd = \<lparr>project_type = p_project_type p,
      area_size = float_of_decimal (p_area_size p), area_unit = p_area_unit p\<rparr>"
  obtain db2 err where ra: "record_assessment e db1 project_id pd = (db2, err)"
    by (cases "record_assessment e db1 project_id pd")
  from record_assessment_rows [OF ra] have "projects db2 = projects db1"
    by simp
  moreover have "fst (project_assessment e db project_id) = db2"
    using assms ra
    by (simp add: project_assessment_def update_project_status_def Let_def
        db1_def [symmetric] pd_def [symmetric] split: option.splits)
  ultimately show ?thesis
    using project_status_of_update [OF assms(2)]
    by (simp add: project_status_of_def db1_def)
qed

text \<open>
  C9, as the specification states it, fails: a status does move backward.  On the rows
  that \<^verbatim>\<open>setup_database\<close> inserts, generating the report of project 1 makes it
  verified, and its owner then opening the assessment page makes it assessing again;
  no step is refused.
\<close>

theorem verified_project_goes_back_to_assessing:
  "project_status_of
     (fst (generate_report (request_of 1 1793707200) (seed_ledger 1690000000) 1)) 1
   = Some Verified
   \<and> project_status_of
     (fst (project_assessment (request_of 1 1793707200)
        (fst (generate_report (request_of 1 1793707200) (seed_ledger 1690000000) 1)) 1)) 1
   = Some Assessing
   \<and> snd (project_assessment (request_of 1 1793707200)
        (fst (generate_report (request_of 1 1793707200) (seed_ledger 1690000000) 1)) 1)
   = (NoFlash, Render ''assessment.html'')"
  by code_simp

text \<open>
  C9, amended: the handlers write a project's status without looking at the one it
  has.  For the owner of a project, \<^verbatim>\<open>project_assessment\<close> sets the status to
  assessing whenever its first two statements are not rejected, and every
  \<^verbatim>\<open>generate_report\<close> that completes sets it to verified, whatever the status was
  before; no transition is refused, so a status can move backward.
\<close>

theorem status_is_written_unconditionally:
  assumes "session_user e = Some user"
    and "find (\<lambda>p. p_id p = project_id \<and> p_user_id p = user) (projects db) = Some p"
  shows "(\<not> rejected e 1 \<and> \<not> rejected e 2 \<longrightarrow>
            project_status_of (fst (project_assessment e db project_id)) project_id
              = Some Assessing)
       \<and> (snd (generate_report e db project_id)
            = (Flash ''Verification report generated and carbon credits issued!'',
               Redirect ''project_details'') \<longrightarrow>
            project_status_of (fst (generate_report e db project_id)) project_id
              = Some Verified)"
proof (intro conjI impI)
  assume "\<not> rejected e 1 \<and> \<not> rejected e 2"
  with assms show "project_status_of (fst (project_assessment e db project_id)) project_id
              = Some Assessing"
    by (intro project_assessment_status) simp_all
next
  assume "snd (generate_report e db project_id)
            = (Flash ''Verification report generated and carbon credits issued!'',
               Redirect ''project_details'')"
  then have "generate_report e db project_id
     = (fst (generate_report e db project_id),
        Flash ''Verification report generated and carbon credits issued!'',
        Redirect ''project_details'')"
    by (metis prod.collapse)
  then show "project_status_of (fst (generate_report e db project_id)) project_id
              = Some Verified"
    by (rule generate_report_verified)
qed

theorem status_is_written_unconditionally_witness:
  "session_user (request_of 1 1793707200) = Some 1
   \<and> \<not> rejected (request_of 1 1793707200) 1 \<and> \<not> rejected (request_of 1 1793707200) 2
   \<and> map_option p_user_id
         (find (\<lambda>p. p_id p = 1 \<and> p_user_id p = 1) (projects (seed_ledger 1690000000)))
       = Some 1
   \<and> project_status_of (seed_ledger 1690000000) 1 = Some Registered
   \<and> snd (generate_report (request_of 1 1793707200) (seed_ledger 1690000000) 1)
       = (Flash ''Verification report generated and carbon credits issued!'',
          Redirect ''project_details'')
   \<and> project_status_of
       (fst (generate_report (request_of 1 1793707200) (seed_ledger 1690000000) 1)) 1
     = Some Verified
   \<and> project_status_of
       (fst (project_assessment (request_of 1 1793707200) (seed_ledger 1690000000) 1)) 1
     = Some Assessing"
proof -
  have e1: "session_user (request_of 1 1793707200) = Some 1"
    by (simp add: request_of_def)
  have f: "find (\<lambda>p. p_id p = 1 \<and> p_user_id p = 1) (projects (seed_ledger 1690000000))
      = Some \<lparr>p_id = 1, p_user_id = 1, p_project_type = ''forestry'', p_area_size = 100,
             p_area_unit = ''hectares'', p_status = Registered\<rparr>"
    by (simp add: seed_ledger_def)
  have r: "\<not> rejected (request_of 1 1793707200) 1" "\<not> rejected (request_of 1 1793707200) 2"
    by (simp_all add: request_of_def rejected_def)
  have s: "project_status_of (seed_ledger 1690000000) 1 = Some Registered"
    by (simp add: seed_ledger_def project_status_of_def)
  from status_is_written_unconditionally [OF e1 f] r s
  show ?thesis
    unfolding seed_generate_report f
    by (simp add: request_of_def)
qed

end
